theory Spec2Isabelle
  imports Complex_Main "HOL-Library.Monad_Syntax"
begin

section \<open>Python strings\<close>

text \<open>
  A Python \<open>str\<close> is modelled as a \<open>string\<close> of ASCII characters. Case mapping touches
  the 26 letters only and the whitespace characters are the ASCII ones for which
  \<open>str.isspace\<close> holds: tab, line feed, vertical tab, form feed, carriage return,
  the four separators 0x1C to 0x1F and the space.
\<close>

definition is_space :: "char \<Rightarrow> bool" where
  "is_space c = (c \<in> set [CHR 0x09, CHR 0x0A, CHR 0x0B, CHR 0x0C, CHR 0x0D,
                           CHR 0x1C, CHR 0x1D, CHR 0x1E, CHR 0x1F, CHR 0x20])"

definition lower_char :: "char \<Rightarrow> char" where
  "lower_char c =
     (case map_of (zip ''ABCDEFGHIJKLMNOPQRSTUVWXYZ'' ''abcdefghijklmnopqrstuvwxyz'') c of
        Some l \<Rightarrow> l | None \<Rightarrow> c)"

definition upper_char :: "char \<Rightarrow> char" where
  "upper_char c =
     (case map_of (zip ''abcdefghijklmnopqrstuvwxyz'' ''ABCDEFGHIJKLMNOPQRSTUVWXYZ'') c of
        Some u \<Rightarrow> u | None \<Rightarrow> c)"

text \<open>\<open>s.lower()\<close> and \<open>s.upper()\<close>.\<close>

definition lower :: "string \<Rightarrow> string" where
  "lower s = map lower_char s"

definition upper :: "string \<Rightarrow> string" where
  "upper s = map upper_char s"

text \<open>\<open>s.strip()\<close>: whitespace removed at both ends.\<close>

definition strip :: "string \<Rightarrow> string" where
  "strip s = rev (dropWhile is_space (rev (dropWhile is_space s)))"

text \<open>
  \<open>s.split()\<close> without arguments yields the maximal runs of non-whitespace characters,
  in order. \<open>split_by\<close> cuts at the characters that satisfy a predicate; its second
  argument holds the characters of the current run, reversed.
\<close>

fun split_by :: "(char \<Rightarrow> bool) \<Rightarrow> string \<Rightarrow> string \<Rightarrow> string list" where
  "split_by sep cur [] = (if cur = [] then [] else [rev cur])"
| "split_by sep cur (c # cs) =
     (if sep c then (if cur = [] then split_by sep [] cs else rev cur # split_by sep [] cs)
      else split_by sep (c # cur) cs)"

definition split :: "string \<Rightarrow> string list" where
  "split s = split_by is_space [] s"

text \<open>\<open>s.replace(",", " ")\<close>.\<close>

definition replace_comma :: "string \<Rightarrow> string" where
  "replace_comma s = map (\<lambda>c. if c = CHR '','' then CHR '' '' else c) s"

text \<open>\<open>s.startswith(p)\<close> and the substring test \<open>sub in s\<close>.\<close>

definition startswith :: "string \<Rightarrow> string \<Rightarrow> bool" where
  "startswith s p = (take (length p) s = p)"

fun contains :: "string \<Rightarrow> string \<Rightarrow> bool" where
  "contains [] sub = (sub = [])"
| "contains (c # cs) sub = (startswith (c # cs) sub \<or> contains cs sub)"

text \<open>\<open>str(n)\<close> for a length or a counter, which is never negative.\<close>

definition digit_char :: "nat \<Rightarrow> char" where
  "digit_char d = ''0123456789'' ! d"

fun str_nat :: "nat \<Rightarrow> string" where
  "str_nat n = (if n < 10 then [digit_char n]
                else str_nat (n div 10) @ [digit_char (n mod 10)])"

declare str_nat.simps [simp del]

section \<open>Entity extraction of the graph pipeline\<close>

text \<open>
  The loop of \<open>KGPipeline._extract_entities\<close>: a token not yet seen is appended, and
  the loop breaks as soon as six have been collected.
\<close>

fun collect_seen :: "string list \<Rightarrow> string list \<Rightarrow> string list" where
  "collect_seen seen [] = seen"
| "collect_seen seen (t # ts) =
     (let seen' = (if t \<notin> set seen then seen @ [t] else seen)
      in if length seen' \<ge> 6 then seen' else collect_seen seen' ts)"

definition entity_tokens :: "string \<Rightarrow> string list" where
  "entity_tokens query =
     map (\<lambda>t. lower (strip t)) (filter (\<lambda>t. length (strip t) > 2) (split (replace_comma query)))"

definition extract_entities :: "string \<Rightarrow> string list" where
  "extract_entities query =
     (if query = [] then [''disease'', ''treatment'', ''gene'']
      else let seen = collect_seen [] (entity_tokens query)
           in if seen = [] then [''disease''] else seen)"

section \<open>The raw-query guard\<close>

definition dangerous :: "string list" where
  "dangerous = [''DROP'', ''DELETE'', ''REMOVE'', ''CREATE'', ''MERGE'', ''SET'', ''DETACH'']"

definition is_dangerous :: "string \<Rightarrow> bool" where
  "is_dangerous cypher_query = (\<exists>tok \<in> set dangerous. contains (upper cypher_query) tok)"

section \<open>The schema\<close>

text \<open>
  The pydantic models of \<open>models/schema.py\<close>. Field names carry a prefix naming their
  model, since several models share a field name. A Python \<open>float\<close> that is only
  stored or compared with the bounds 0 and 1 is a \<open>real\<close>.
\<close>

datatype HypothesisType = EVIDENCE_BACKED | ANALOGY_DERIVED | SPECULATIVE

datatype Plausibility = HIGH | MEDIUM | LOW

record EvidenceItem =
  ev_pmid :: string
  ev_title :: string
  ev_snippet :: string
  ev_score :: "real option"
  ev_source :: "string option"

record SummarySection =
  ss_overview :: string
  ss_key_findings :: "string list"
  ss_knowledge_gaps :: "string list"
  ss_implications :: string

record KGTriple =
  kt_subject :: string
  kt_relation :: string
  kt_object :: string
  kt_supporting_pmids :: "string list"

record SuggestedExperiment =
  se_model :: string
  se_intervention :: string
  se_primary_outcome :: string
  se_design_summary :: string
  se_safety_measures :: "string option"

record Hypothesis =
  h_id :: string
  h_statement :: string
  h_type :: HypothesisType
  h_plausibility :: Plausibility
  h_confidence_score :: real
  h_supporting_evidence :: "string list"
  h_mechanistic_rationale :: string
  h_suggested_experiment :: SuggestedExperiment
  h_limitations :: string

record QueryRequest =
  qr_query :: string
  qr_seeded_input :: "string option"
  qr_top_k :: int
  qr_creative_mode :: bool
  qr_temperature :: real

record HypothesisResponse =
  hr_query :: string
  hr_summary :: "SummarySection option"
  hr_hypotheses :: "Hypothesis list"
  hr_evidence :: "EvidenceItem list"
  hr_kg_triples :: "KGTriple list"
  hr_note :: "string option"

section \<open>Exceptions\<close>

datatype py_exn =
    RuntimeError string
  | ValueError string
  | TypeError string
  | JSONDecodeError string
  | ValidationError string
  | IndexError string
  | BackendError string

text \<open>\<open>str(e)\<close>.\<close>

fun exn_str :: "py_exn \<Rightarrow> string" where
  "exn_str (RuntimeError m) = m"
| "exn_str (ValueError m) = m"
| "exn_str (TypeError m) = m"
| "exn_str (JSONDecodeError m) = m"
| "exn_str (ValidationError m) = m"
| "exn_str (IndexError m) = m"
| "exn_str (BackendError m) = m"

text \<open>\<open>HTTPException(status_code, detail)\<close>.\<close>

datatype HTTPException = HTTPException nat string

section \<open>Parsed JSON and schema validation\<close>

text \<open>
  What \<open>json.loads\<close> returns. An object is kept as the list of its items; a key is
  looked up with \<open>map_of\<close>. \<open>PNonFinite\<close> stands for the literals \<open>NaN\<close> and
  \<open>Infinity\<close>, which \<open>json.loads\<close> accepts.
\<close>

datatype pyval =
    PNone
  | PBool bool
  | PInt int
  | PFloat real
  | PNonFinite
  | PStr string
  | PList "pyval list"
  | PDict "(string \<times> pyval) list"

text \<open>
  A value of a result row of the graph backend: a primitive, a list, a map, a node
  (labels and properties) or a relationship (type and properties).
\<close>

datatype cy_value =
    CNull
  | CBool bool
  | CInt int
  | CFloat real
  | CStr string
  | CList "cy_value list"
  | CMap "(string \<times> cy_value) list"
  | CNode "string list" "(string \<times> cy_value) list"
  | CRel string "(string \<times> cy_value) list"

text \<open>
  Library behaviour that the repository does not define is a parameter of the model:
  \<open>json.loads\<close> (\<open>None\<close> is a \<open>JSONDecodeError\<close>), the conversions of pydantic
  to a \<open>str\<close> and to a finite \<open>float\<close>, which differ between its releases (a number
  given for a \<open>str\<close> field, a numeric string given for a \<open>float\<close> field), and
  \<open>str(x)\<close> on a value of the graph backend.
\<close>

record library =
  json_loads :: "string \<Rightarrow> pyval option"
  co_str :: "pyval \<Rightarrow> string option"
  co_float :: "pyval \<Rightarrow> real option"
  py_str :: "cy_value \<Rightarrow> string"

text \<open>A required \<open>str\<close> field, an \<open>Optional[str]\<close> field and a \<open>List[str]\<close> value.\<close>

definition req_str :: "library \<Rightarrow> (string \<times> pyval) list \<Rightarrow> string \<Rightarrow> string option" where
  "req_str co d k = (case map_of d k of None \<Rightarrow> None | Some v \<Rightarrow> co_str co v)"

definition opt_str :: "library \<Rightarrow> (string \<times> pyval) list \<Rightarrow> string \<Rightarrow> string option option" where
  "opt_str co d k =
     (case map_of d k of
        None \<Rightarrow> Some None
      | Some PNone \<Rightarrow> Some None
      | Some v \<Rightarrow> map_option Some (co_str co v))"

fun those_str :: "library \<Rightarrow> pyval list \<Rightarrow> string list option" where
  "those_str co [] = Some []"
| "those_str co (v # vs) =
     (case co_str co v of
        None \<Rightarrow> None
      | Some s \<Rightarrow> map_option ((#) s) (those_str co vs))"

definition str_list :: "library \<Rightarrow> pyval \<Rightarrow> string list option" where
  "str_list co v = (case v of PList vs \<Rightarrow> those_str co vs | _ \<Rightarrow> None)"

definition HypothesisType_of :: "pyval \<Rightarrow> HypothesisType option" where
  "HypothesisType_of v =
     (if v = PStr ''evidence-backed'' then Some EVIDENCE_BACKED
      else if v = PStr ''analogy-derived'' then Some ANALOGY_DERIVED
      else if v = PStr ''speculative'' then Some SPECULATIVE
      else None)"

definition Plausibility_of :: "pyval \<Rightarrow> Plausibility option" where
  "Plausibility_of v =
     (if v = PStr ''High'' then Some HIGH
      else if v = PStr ''Medium'' then Some MEDIUM
      else if v = PStr ''Low'' then Some LOW
      else None)"

text \<open>\<open>confidence_score: float = Field(0.7, ge=0.0, le=1.0)\<close>.\<close>

definition confidence_of :: "library \<Rightarrow> pyval \<Rightarrow> real option" where
  "confidence_of co v =
     (case co_float co v of
        None \<Rightarrow> None
      | Some c \<Rightarrow> if 0 \<le> c \<and> c \<le> 1 then Some c else None)"

text \<open>\<open>SummarySection(**d)\<close>, \<open>SuggestedExperiment(**d)\<close> and \<open>Hypothesis(**d)\<close>:
  \<open>None\<close> is a \<open>ValidationError\<close>. Keys that name no field are ignored.\<close>

definition SummarySection_of :: "library \<Rightarrow> (string \<times> pyval) list \<Rightarrow> SummarySection option" where
  "SummarySection_of co d = do {
     ov \<leftarrow> req_str co d ''overview'';
     kf \<leftarrow> Option.bind (map_of d ''key_findings'') (str_list co);
     kg \<leftarrow> Option.bind (map_of d ''knowledge_gaps'') (str_list co);
     im \<leftarrow> req_str co d ''implications'';
     Some \<lparr>ss_overview = ov, ss_key_findings = kf, ss_knowledge_gaps = kg, ss_implications = im\<rparr>
   }"

definition SuggestedExperiment_of :: "library \<Rightarrow> pyval \<Rightarrow> SuggestedExperiment option" where
  "SuggestedExperiment_of co v =
     (case v of
        PDict d \<Rightarrow> do {
          m \<leftarrow> req_str co d ''model'';
          i \<leftarrow> req_str co d ''intervention'';
          p \<leftarrow> req_str co d ''primary_outcome'';
          ds \<leftarrow> req_str co d ''design_summary'';
          sm \<leftarrow> opt_str co d ''safety_measures'';
          Some \<lparr>se_model = m, se_intervention = i, se_primary_outcome = p,
                se_design_summary = ds, se_safety_measures = sm\<rparr>
        }
      | _ \<Rightarrow> None)"

definition Hypothesis_of :: "library \<Rightarrow> (string \<times> pyval) list \<Rightarrow> Hypothesis option" where
  "Hypothesis_of co d = do {
     i \<leftarrow> req_str co d ''id'';
     st \<leftarrow> req_str co d ''statement'';
     ty \<leftarrow> (case map_of d ''type'' of None \<Rightarrow> Some EVIDENCE_BACKED | Some v \<Rightarrow> HypothesisType_of v);
     pl \<leftarrow> (case map_of d ''plausibility'' of None \<Rightarrow> Some MEDIUM | Some v \<Rightarrow> Plausibility_of v);
     cs \<leftarrow> (case map_of d ''confidence_score'' of None \<Rightarrow> Some 0.7 | Some v \<Rightarrow> confidence_of co v);
     se \<leftarrow> (case map_of d ''supporting_evidence'' of None \<Rightarrow> Some [] | Some v \<Rightarrow> str_list co v);
     mr \<leftarrow> req_str co d ''mechanistic_rationale'';
     ex \<leftarrow> Option.bind (map_of d ''suggested_experiment'') (SuggestedExperiment_of co);
     li \<leftarrow> req_str co d ''limitations'';
     Some \<lparr>h_id = i, h_statement = st, h_type = ty, h_plausibility = pl,
           h_confidence_score = cs, h_supporting_evidence = se, h_mechanistic_rationale = mr,
           h_suggested_experiment = ex, h_limitations = li\<rparr>
   }"

section \<open>Evidence retrieval\<close>

text \<open>
  A document of the vector store: its metadata, with the string values that
  \<open>build_index\<close> stores, and its text. The store itself is the function
  \<open>similarity_search_with_score\<close>, which may raise; a pipeline without a loaded index
  has no store.
\<close>

record Document =
  doc_metadata :: "(string \<times> string) list"
  doc_page_content :: string

type_synonym vectorstore = "string \<Rightarrow> int \<Rightarrow> py_exn + (Document \<times> real) list"

record RAGPipeline =
  rag_vectorstore :: "vectorstore option"

definition rag_is_ready :: "RAGPipeline \<Rightarrow> bool" where
  "rag_is_ready rag = (rag_vectorstore rag \<noteq> None)"

text \<open>The dictionary that \<open>retrieve\<close> builds for one result.\<close>

record Retrieved =
  r_pmid :: string
  r_title :: string
  r_snippet :: string
  r_score :: real
  r_source :: string

text \<open>\<open>meta.get(key, default)\<close>, and \<open>str(meta.get("pmid", "")).strip()\<close>.\<close>

definition meta_get :: "Document \<Rightarrow> string \<Rightarrow> string \<Rightarrow> string" where
  "meta_get doc k dflt = (case map_of (doc_metadata doc) k of None \<Rightarrow> dflt | Some v \<Rightarrow> v)"

definition doc_pmid :: "Document \<Rightarrow> string" where
  "doc_pmid doc = strip (meta_get doc ''pmid'' [])"

text \<open>\<open>not pmid or pmid.lower() in {"nan", "none", ""}\<close>.\<close>

definition pmid_unusable :: "string \<Rightarrow> bool" where
  "pmid_unusable p = (p = [] \<or> lower p \<in> {''nan'', ''none'', []})"

definition make_snippet :: "string \<Rightarrow> string" where
  "make_snippet page_content =
     (if length page_content > 300 then take 300 page_content @ ''...'' else page_content)"

definition make_retrieved :: "Document \<Rightarrow> real \<Rightarrow> Retrieved" where
  "make_retrieved doc sc =
     \<lparr>r_pmid = doc_pmid doc,
      r_title = meta_get doc ''title'' ''No title'',
      r_snippet = make_snippet (doc_page_content doc),
      r_score = sc,
      r_source = meta_get doc ''source'' ''pubmed''\<rparr>"

text \<open>The loop of \<open>RAGPipeline.retrieve\<close> over the results, with \<open>seen_pmids\<close> and
  \<open>output\<close> as its state.\<close>

fun retrieve_loop :: "(Document \<times> real) list \<Rightarrow> string set \<Rightarrow> Retrieved list \<Rightarrow> Retrieved list" where
  "retrieve_loop [] seen_pmids output = output"
| "retrieve_loop ((doc, sc) # results) seen_pmids output =
     (if pmid_unusable (doc_pmid doc) then retrieve_loop results seen_pmids output
      else if doc_pmid doc \<in> seen_pmids then retrieve_loop results seen_pmids output
      else retrieve_loop results (insert (doc_pmid doc) seen_pmids)
             (output @ [make_retrieved doc sc]))"

text \<open>
  \<open>RAGPipeline.retrieve\<close>. The result is a sum so that a caller's \<open>try\<close> around the
  call can be written down; the function itself returns a list in every branch: the empty
  one when the store is missing and when the search raises.
\<close>

definition retrieve :: "RAGPipeline \<Rightarrow> string \<Rightarrow> int \<Rightarrow> py_exn + Retrieved list" where
  "retrieve rag query k =
     (case rag_vectorstore rag of
        None \<Rightarrow> Inr []
      | Some similarity_search_with_score \<Rightarrow>
          (case similarity_search_with_score query k of
             Inl e \<Rightarrow> Inr []
           | Inr results \<Rightarrow> Inr (retrieve_loop results {} [])))"

text \<open>
  The conversion loop of the \<open>/generate\<close> route, with \<open>evidence_out\<close> and
  \<open>missing_pmid_count\<close> as its state. Every field handed to \<open>EvidenceItem\<close> is a string
  or a float here, so the constructor does not raise.
\<close>

definition or_str :: "string \<Rightarrow> string \<Rightarrow> string" where
  "or_str s dflt = (if s = [] then dflt else s)"

fun convert_results :: "Retrieved list \<Rightarrow> EvidenceItem list \<Rightarrow> nat \<Rightarrow> EvidenceItem list \<times> nat" where
  "convert_results [] evidence_out missing_pmid_count = (evidence_out, missing_pmid_count)"
| "convert_results (item # raw_results) evidence_out missing_pmid_count =
     (if r_pmid item = [] \<or> strip (r_pmid item) = []
      then convert_results raw_results evidence_out (missing_pmid_count + 1)
      else convert_results raw_results
             (evidence_out @
                [\<lparr>ev_pmid = r_pmid item,
                  ev_title = or_str (r_title item) ''No title'',
                  ev_snippet = or_str (r_snippet item) ''No snippet'',
                  ev_score = Some (r_score item),
                  ev_source = Some (r_source item)\<rparr>])
             missing_pmid_count)"

section \<open>The generative backend\<close>

text \<open>
  A request to the model is kept structured: the query and the papers of a summary prompt
  (number, pmid, title, key points), or the query, the passages (pmid, title, snippet,
  score), the triples and the seed text of a hypothesis prompt. The answer of the backend
  may depend on everything that happened to the handle before, so the handle's history is
  threaded through every function that may call it: a call appends \<open>Invoked\<close>, an
  assignment to \<open>llm.temperature\<close> appends \<open>TemperatureSet\<close>.
\<close>

datatype llm_request =
    SummaryRequest string "(nat \<times> string \<times> string \<times> string) list"
  | HypothesisRequest string "(string \<times> string \<times> string \<times> real option) list"
      "KGTriple list" "string option"

datatype llm_event = Invoked llm_request | TemperatureSet real

text \<open>
  The handle: \<open>invoke\<close> returns the content of the response or raises;
  \<open>llm_has_invoke\<close> is \<open>hasattr(llm, "invoke")\<close>; \<open>llm_temperature\<close> is \<open>None\<close> when
  the handle has no attribute \<open>temperature\<close>, and otherwise tells whether assigning to it
  raises.
\<close>

record LLM =
  llm_invoke :: "llm_event list \<Rightarrow> llm_request \<Rightarrow> py_exn + string"
  llm_has_invoke :: bool
  llm_temperature :: "(real \<Rightarrow> py_exn option) option"

definition invoke :: "LLM \<Rightarrow> llm_request \<Rightarrow> llm_event list \<Rightarrow> (py_exn + string) \<times> llm_event list" where
  "invoke l req hist = (llm_invoke l hist req, hist @ [Invoked req])"

section \<open>Cleaning the response text\<close>

text \<open>
  \<open>s.split(sep)\<close> for a non-empty separator: the pieces between the occurrences of
  \<open>sep\<close>, found from the left. \<open>skip\<close> counts the characters of a separator still to
  be passed over.
\<close>

fun split_sep :: "string \<Rightarrow> nat \<Rightarrow> string \<Rightarrow> string \<Rightarrow> string list" where
  "split_sep sep skip cur [] = [rev cur]"
| "split_sep sep skip cur (c # cs) =
     (case skip of
        Suc k \<Rightarrow> split_sep sep k cur cs
      | 0 \<Rightarrow> if startswith (c # cs) sep
             then rev cur # split_sep sep (length sep - 1) [] cs
             else split_sep sep 0 (c # cur) cs)"

definition str_split :: "string \<Rightarrow> string \<Rightarrow> string list" where
  "str_split s sep = split_sep sep 0 [] s"

text \<open>\<open>xs[n]\<close>; \<open>None\<close> is an \<open>IndexError\<close>.\<close>

definition index :: "'a list \<Rightarrow> nat \<Rightarrow> 'a option" where
  "index xs n = (if n < length xs then Some (xs ! n) else None)"

text \<open>The removal of the markdown fence, written the same way in
  \<open>SummaryGenerator.generate_summary\<close> and in \<open>LLMAgent._clean_json_response\<close>.\<close>

definition strip_fences :: "string \<Rightarrow> string option" where
  "strip_fences response_content =
     (if contains response_content ''```json''
      then do {
        a \<leftarrow> index (str_split response_content ''```json'') 1;
        b \<leftarrow> index (str_split a ''```'') 0;
        Some (strip b)
      }
      else if contains response_content ''```''
      then do {
        a \<leftarrow> index (str_split response_content ''```'') 1;
        Some (strip a)
      }
      else Some response_content)"

text \<open>
  \<open>re.sub(r',\s*}', '}', s)\<close> and \<open>re.sub(r',\s*]', ']', s)\<close>: a comma, any
  whitespace and the closing character become the closing character.
\<close>

fun re_sub_comma :: "char \<Rightarrow> nat \<Rightarrow> string \<Rightarrow> string" where
  "re_sub_comma cl skip [] = []"
| "re_sub_comma cl skip (c # cs) =
     (case skip of
        Suc k \<Rightarrow> re_sub_comma cl k cs
      | 0 \<Rightarrow> if c = CHR '','' \<and> startswith (dropWhile is_space cs) [cl]
             then cl # re_sub_comma cl (Suc (length (takeWhile is_space cs))) cs
             else c # re_sub_comma cl 0 cs)"

text \<open>\<open>re.search(r'\{.*\}', s, re.DOTALL)\<close>: from the first opening brace to the last
  closing brace after it.\<close>

definition re_search_object :: "string \<Rightarrow> string option" where
  "re_search_object s =
     (case dropWhile (\<lambda>c. c \<noteq> CHR ''{'') s of
        [] \<Rightarrow> None
      | b # body \<Rightarrow>
          if CHR ''}'' \<in> set body
          then Some (b # rev (dropWhile (\<lambda>c. c \<noteq> CHR ''}'') (rev body)))
          else None)"

definition clean_json_response :: "string \<Rightarrow> py_exn + string" where
  "clean_json_response response_content =
     (case strip_fences response_content of
        None \<Rightarrow> Inl (IndexError ''list index out of range'')
      | Some unfenced \<Rightarrow>
          let fixed = re_sub_comma (CHR '']'') 0 (re_sub_comma (CHR ''}'') 0 unfenced)
          in if \<not> startswith (strip fixed) ''{''
             then (case re_search_object fixed of
                     Some m \<Rightarrow> Inr (strip m)
                   | None \<Rightarrow> Inl (ValueError ''No JSON object found in response''))
             else Inr (strip fixed))"

section \<open>The summary generator\<close>

definition key_points :: "string \<Rightarrow> string" where
  "key_points snippet = (if length snippet > 200 then take 200 snippet @ ''...'' else snippet)"

definition papers_info :: "EvidenceItem list \<Rightarrow> (nat \<times> string \<times> string \<times> string) list" where
  "papers_info evidence =
     map (\<lambda>(i, paper). (i + 1, ev_pmid paper, ev_title paper, key_points (ev_snippet paper)))
       (enumerate 0 (take 8 evidence))"

text \<open>\<open>f"PMID {ev.pmid}: {ev.title} - {ev.snippet[:100]}..."\<close>.\<close>

definition evidence_line :: "EvidenceItem \<Rightarrow> string" where
  "evidence_line ev =
     ''PMID '' @ ev_pmid ev @ '': '' @ ev_title ev @ '' - '' @ take 100 (ev_snippet ev) @ ''...''"

definition sg_create_fallback_summary :: "string \<Rightarrow> EvidenceItem list \<Rightarrow> SummarySection" where
  "sg_create_fallback_summary query evidence =
     \<lparr>ss_overview = ''Research on '' @ query @ '' based on '' @ str_nat (length evidence)
                     @ '' retrieved papers'',
      ss_key_findings = map evidence_line (take 3 evidence),
      ss_knowledge_gaps = [''Need for more comprehensive studies'',
                           ''Limited understanding of underlying mechanisms''],
      ss_implications = ''Suggests potential for novel therapeutic approaches''\<rparr>"

definition create_empty_summary :: "string \<Rightarrow> SummarySection" where
  "create_empty_summary query =
     \<lparr>ss_overview = ''No papers retrieved for query: '' @ query,
      ss_key_findings = [''No evidence available for analysis''],
      ss_knowledge_gaps = [''Limited research available in the database''],
      ss_implications = ''Consider broadening search terms or updating the knowledge base''\<rparr>"

text \<open>What the \<open>try\<close> block does with the content of the response; \<open>None\<close> is any
  exception raised on the way (a missing fence piece, a decode error, a value that is no
  dictionary, a validation error).\<close>

definition summary_from_content :: "library \<Rightarrow> string \<Rightarrow> SummarySection option" where
  "summary_from_content lib response_content = do {
     unfenced \<leftarrow> strip_fences response_content;
     summary_data \<leftarrow> json_loads lib unfenced;
     (case summary_data of PDict d \<Rightarrow> SummarySection_of lib d | _ \<Rightarrow> None)
   }"

text \<open>\<open>SummaryGenerator.generate_summary\<close>, for the generator built on the handle
  \<open>llm\<close> (\<open>None\<close> when no API key was found).\<close>

definition sg_generate_summary ::
  "library \<Rightarrow> LLM option \<Rightarrow> string \<Rightarrow> EvidenceItem list \<Rightarrow> llm_event list
     \<Rightarrow> SummarySection \<times> llm_event list" where
  "sg_generate_summary lib llm query evidence hist =
     (if evidence = [] then (create_empty_summary query, hist)
      else (case llm of
              None \<Rightarrow> (sg_create_fallback_summary query evidence, hist)
            | Some l \<Rightarrow>
                if llm_has_invoke l
                then (case invoke l (SummaryRequest query (papers_info evidence)) hist of
                        (Inl e, hist') \<Rightarrow> (sg_create_fallback_summary query evidence, hist')
                      | (Inr response_content, hist') \<Rightarrow>
                          (case summary_from_content lib response_content of
                             None \<Rightarrow> (sg_create_fallback_summary query evidence, hist')
                           | Some s \<Rightarrow> (s, hist')))
                else (sg_create_fallback_summary query evidence, hist)))"

section \<open>The agent\<close>

text \<open>
  \<open>LLMAgent\<close>: the handle chosen from the API keys, \<open>None\<close> in fallback mode. Its
  summary generator is always built, on the same handle, so \<open>generate_summary\<close> is the
  generator's.
\<close>

record LLMAgent =
  agent_llm :: "LLM option"

definition agent_is_ready :: "LLMAgent \<Rightarrow> bool" where
  "agent_is_ready agent = (case agent_llm agent of None \<Rightarrow> False | Some l \<Rightarrow> llm_has_invoke l)"

definition agent_generate_summary ::
  "library \<Rightarrow> LLMAgent \<Rightarrow> string \<Rightarrow> EvidenceItem list \<Rightarrow> llm_event list
     \<Rightarrow> SummarySection \<times> llm_event list" where
  "agent_generate_summary lib agent query evidence hist =
     sg_generate_summary lib (agent_llm agent) query evidence hist"

text \<open>The one hypothesis of \<open>LLMAgent._create_fallback_hypothesis\<close>.\<close>

definition agent_fallback_hypothesis :: "string \<Rightarrow> EvidenceItem list \<Rightarrow> Hypothesis" where
  "agent_fallback_hypothesis query evidence =
     \<lparr>h_id = ''H1'',
      h_statement = ''Potential therapeutic intervention for '' @ query
                    @ '' targeting key molecular pathways identified in literature'',
      h_type = EVIDENCE_BACKED,
      h_plausibility = MEDIUM,
      h_confidence_score = 0.6,
      h_supporting_evidence = map evidence_line (take 3 evidence),
      h_mechanistic_rationale = ''Based on associations between biological pathways and disease mechanisms identified in retrieved literature. The evidence suggests potential targets for intervention.'',
      h_suggested_experiment =
        \<lparr>se_model = ''In vitro cell culture model'',
         se_intervention = ''Compound screening targeting identified pathways'',
         se_primary_outcome = ''Reduction in pathological biomarkers'',
         se_design_summary = ''Dose-response study with appropriate controls'',
         se_safety_measures = Some ''Standard laboratory safety protocols''\<rparr>,
      h_limitations = ''Limited by available literature scope and requires experimental validation.''\<rparr>"

text \<open>\<open>LLMAgent._create_fallback_hypothesis\<close>. Every call in the source passes the
  summary, so the branch that would generate one is not taken.\<close>

definition agent_create_fallback_hypothesis ::
  "string \<Rightarrow> EvidenceItem list \<Rightarrow> SummarySection \<Rightarrow> HypothesisResponse" where
  "agent_create_fallback_hypothesis query evidence summary =
     \<lparr>hr_query = query,
      hr_summary = Some summary,
      hr_hypotheses = [agent_fallback_hypothesis query evidence],
      hr_evidence = evidence,
      hr_kg_triples = [],
      hr_note = Some ''Generated using fallback method (LLM parsing failed)''\<rparr>"

text \<open>
  One pass of the loop over \<open>parsed_response["hypotheses"]\<close>: the default experiment is
  filled in when the key is absent, then the record is validated. \<open>None\<close> is the
  exception that the loop catches: a \<open>ValidationError\<close>, or the \<open>TypeError\<close> raised
  by an entry that is no dictionary.
\<close>

definition default_experiment :: pyval where
  "default_experiment =
     PDict [(''model'', PStr ''Not specified''), (''intervention'', PStr ''Not specified''),
            (''primary_outcome'', PStr ''Not specified''),
            (''design_summary'', PStr ''Not specified'')]"

definition hypothesis_from :: "library \<Rightarrow> pyval \<Rightarrow> Hypothesis option" where
  "hypothesis_from lib hyp_data =
     (case hyp_data of
        PDict d \<Rightarrow>
          Hypothesis_of lib
            (if map_of d ''suggested_experiment'' = None
             then d @ [(''suggested_experiment'', default_experiment)] else d)
      | _ \<Rightarrow> None)"

fun hypotheses_loop :: "library \<Rightarrow> pyval list \<Rightarrow> Hypothesis list \<Rightarrow> Hypothesis list" where
  "hypotheses_loop lib [] hypotheses_list = hypotheses_list"
| "hypotheses_loop lib (hyp_data # rest) hypotheses_list =
     (case hypothesis_from lib hyp_data of
        None \<Rightarrow> hypotheses_loop lib rest hypotheses_list
      | Some hypothesis \<Rightarrow> hypotheses_loop lib rest (hypotheses_list @ [hypothesis]))"

text \<open>What \<open>enumerate(v)\<close> runs over: the entries of a list, the keys of a dictionary,
  the characters of a string; \<open>None\<close> is the \<open>TypeError\<close> of a value that cannot be
  iterated.\<close>

definition py_iter :: "pyval \<Rightarrow> pyval list option" where
  "py_iter v =
     (case v of
        PList vs \<Rightarrow> Some vs
      | PDict d \<Rightarrow> Some (map (\<lambda>(k, _). PStr k) d)
      | PStr s \<Rightarrow> Some (map (\<lambda>c. PStr [c]) s)
      | _ \<Rightarrow> None)"

text \<open>The \<open>HypothesisResponse\<close> built from the parsed response: \<open>query\<close> and \<open>note\<close>
  are taken from it when present, and validated.\<close>

definition response_from_parsed ::
  "library \<Rightarrow> (string \<times> pyval) list \<Rightarrow> QueryRequest \<Rightarrow> SummarySection \<Rightarrow> Hypothesis list
     \<Rightarrow> EvidenceItem list \<Rightarrow> KGTriple list \<Rightarrow> HypothesisResponse option" where
  "response_from_parsed lib d request summary hypotheses_list evidence kg_triples = do {
     q \<leftarrow> (case map_of d ''query'' of None \<Rightarrow> Some (qr_query request) | Some v \<Rightarrow> co_str lib v);
     n \<leftarrow> (case map_of d ''note'' of
             None \<Rightarrow> Some (Some ''Hypotheses generated successfully with research summary'')
           | Some PNone \<Rightarrow> Some None
           | Some v \<Rightarrow> map_option Some (co_str lib v));
     Some \<lparr>hr_query = q, hr_summary = Some summary, hr_hypotheses = hypotheses_list,
           hr_evidence = evidence, hr_kg_triples = kg_triples, hr_note = n\<rparr>
   }"

text \<open>
  The \<open>try\<close> block of \<open>LLMAgent.generate_hypothesis\<close> after the call: \<open>None\<close> is any
  of the exceptions and the missing \<open>hypotheses\<close> key, which all lead to the fallback
  response. A parsed value that is no dictionary ends there too: the test
  \<open>"hypotheses" in parsed_response\<close> is false or raises, or the subscript raises.
\<close>

definition response_from_content ::
  "library \<Rightarrow> string \<Rightarrow> QueryRequest \<Rightarrow> SummarySection \<Rightarrow> EvidenceItem list \<Rightarrow> KGTriple list
     \<Rightarrow> HypothesisResponse option" where
  "response_from_content lib response_content request summary evidence kg_triples =
     (case clean_json_response response_content of
        Inl e \<Rightarrow> None
      | Inr cleaned_content \<Rightarrow>
          (case json_loads lib cleaned_content of
             Some (PDict d) \<Rightarrow>
               (case map_of d ''hypotheses'' of
                  None \<Rightarrow> None
                | Some hs \<Rightarrow>
                    (case py_iter hs of
                       None \<Rightarrow> None
                     | Some entries \<Rightarrow>
                         response_from_parsed lib d request summary
                           (hypotheses_loop lib entries []) evidence kg_triples))
           | _ \<Rightarrow> None))"

text \<open>\<open>LLMAgent.generate_hypothesis\<close>. The assignment to \<open>llm.temperature\<close> is outside
  the \<open>try\<close> block, so an exception there leaves the function.\<close>

definition agent_generate_hypothesis ::
  "library \<Rightarrow> LLMAgent \<Rightarrow> QueryRequest \<Rightarrow> EvidenceItem list \<Rightarrow> KGTriple list \<Rightarrow> llm_event list
     \<Rightarrow> (py_exn + HypothesisResponse) \<times> llm_event list" where
  "agent_generate_hypothesis lib agent request evidence kg_triples hist =
     (case agent_generate_summary lib agent (qr_query request) evidence hist of
        (summary, hist1) \<Rightarrow>
          (case agent_llm agent of
             None \<Rightarrow> (Inr (agent_create_fallback_hypothesis (qr_query request) evidence summary), hist1)
           | Some l \<Rightarrow>
               if \<not> llm_has_invoke l
               then (Inr (agent_create_fallback_hypothesis (qr_query request) evidence summary), hist1)
               else
                 (case (case llm_temperature l of
                          None \<Rightarrow> Inr hist1
                        | Some assign \<Rightarrow>
                            (case assign (qr_temperature request) of
                               Some e \<Rightarrow> Inl e
                             | None \<Rightarrow> Inr (hist1 @ [TemperatureSet (qr_temperature request)]))) of
                    Inl e \<Rightarrow> (Inl e, hist1)
                  | Inr hist2 \<Rightarrow>
                      (case invoke l
                              (HypothesisRequest (qr_query request)
                                 (map (\<lambda>item. (ev_pmid item, ev_title item, ev_snippet item, ev_score item))
                                    (take 5 evidence))
                                 (take 3 kg_triples) (qr_seeded_input request)) hist2 of
                         (Inl e, hist3) \<Rightarrow>
                           (Inr (agent_create_fallback_hypothesis (qr_query request) evidence summary), hist3)
                       | (Inr response_content, hist3) \<Rightarrow>
                           (case response_from_content lib response_content request summary
                                   evidence kg_triples of
                              None \<Rightarrow>
                                (Inr (agent_create_fallback_hypothesis (qr_query request) evidence summary), hist3)
                            | Some response \<Rightarrow> (Inr response, hist3))))))"

section \<open>The graph pipeline\<close>

text \<open>
  The graph backend. A node carries the three properties that the triple query reads; an
  edge is its start node, the type of the relationship and its end node, and the graph
  lists its edges in the order in which the backend matches them. The handle evaluates the triple query on its graph, answers
  every other query text through \<open>neo_run_raw\<close>, and raises \<open>neo_failure\<close> when the
  session is broken.
\<close>

record Node =
  n_name :: "string option"
  n_title :: "string option"
  n_abstract :: "string option"

type_synonym row = "(string \<times> cy_value) list"

datatype cypher =
    TripleQuery "string list" int
  | RawQuery string "(string \<times> pyval) list"

record Neo4j =
  neo_graph :: "(Node \<times> string \<times> Node) list"
  neo_failure :: "py_exn option"
  neo_run_raw :: "string \<Rightarrow> (string \<times> pyval) list \<Rightarrow> py_exn + row list"

record KGPipeline =
  kg_driver :: "Neo4j option"

definition kg_is_ready :: "KGPipeline \<Rightarrow> bool" where
  "kg_is_ready kg = (kg_driver kg \<noteq> None)"

text \<open>
  The triple query of \<open>query_kg\<close>, clause by clause.
  \<open>p IS NOT NULL AND toLower(p) CONTAINS toLower(entity)\<close>:
\<close>

definition prop_contains :: "string option \<Rightarrow> string \<Rightarrow> bool" where
  "prop_contains p entity =
     (case p of None \<Rightarrow> False | Some v \<Rightarrow> contains (lower v) (lower entity))"

text \<open>The \<open>WHERE\<close> clause.\<close>

definition edge_matches :: "string list \<Rightarrow> Node \<times> string \<times> Node \<Rightarrow> bool" where
  "edge_matches entities edge =
     (case edge of (s, r, ob) \<Rightarrow>
        (\<exists>entity \<in> set entities.
           prop_contains (n_name s) entity \<or> prop_contains (n_title s) entity
           \<or> prop_contains (n_abstract s) entity
           \<or> prop_contains (n_name ob) entity \<or> prop_contains (n_title ob) entity
           \<or> prop_contains (n_abstract ob) entity
           \<or> contains (lower r) (lower entity)))"

text \<open>\<open>coalesce(n.name, n.title, '')\<close>.\<close>

definition coalesce_name :: "Node \<Rightarrow> string" where
  "coalesce_name n =
     (case n_name n of
        Some v \<Rightarrow> v
      | None \<Rightarrow> (case n_title n of Some v \<Rightarrow> v | None \<Rightarrow> []))"

text \<open>The \<open>RETURN\<close> clause.\<close>

definition triple_row :: "Node \<times> string \<times> Node \<Rightarrow> row" where
  "triple_row edge =
     (case edge of (s, r, ob) \<Rightarrow>
        [(''subject'', CStr (coalesce_name s)), (''relation'', CStr r),
         (''object'', CStr (coalesce_name ob)), (''supporting_pmids'', CList [])])"

text \<open>\<open>session.run\<close>: \<open>LIMIT\<close> refuses a negative number.\<close>

definition session_run :: "Neo4j \<Rightarrow> cypher \<Rightarrow> py_exn + row list" where
  "session_run drv q =
     (case neo_failure drv of
        Some e \<Rightarrow> Inl e
      | None \<Rightarrow>
          (case q of
             TripleQuery entities limit \<Rightarrow>
               if limit < 0 then Inl (BackendError ''LIMIT: not a non-negative integer'')
               else Inr (take (nat limit) (map triple_row (filter (edge_matches entities) (neo_graph drv))))
           | RawQuery text params \<Rightarrow> neo_run_raw drv text params))"

text \<open>
  The values that \<open>_neo4j_value_to_basic\<close> returns. A value that is neither a primitive,
  a node nor a relationship goes through \<open>dict(value)\<close>, which succeeds on a map and on
  a list whose entries all yield exactly two items with a hashable first one (so on the
  empty list), and then through \<open>list(value)\<close>.
\<close>

datatype basic =
    BNone
  | BBool bool
  | BInt int
  | BFloat real
  | BStr string
  | BList "cy_value list"
  | BDict "(cy_value \<times> cy_value) list"

definition hashable :: "cy_value \<Rightarrow> bool" where
  "hashable v = (case v of CList _ \<Rightarrow> False | CMap _ \<Rightarrow> False | _ \<Rightarrow> True)"

definition as_pair :: "cy_value \<Rightarrow> (cy_value \<times> cy_value) option" where
  "as_pair v =
     (case v of
        CStr [a, b] \<Rightarrow> Some (CStr [a], CStr [b])
      | CList [k, w] \<Rightarrow> if hashable k then Some (k, w) else None
      | CMap [(k1, _), (k2, _)] \<Rightarrow> Some (CStr k1, CStr k2)
      | CNode _ [(k1, _), (k2, _)] \<Rightarrow> Some (CStr k1, CStr k2)
      | CRel _ [(k1, _), (k2, _)] \<Rightarrow> Some (CStr k1, CStr k2)
      | _ \<Rightarrow> None)"

text \<open>
  \<open>dict(pairs)\<close> keeps one entry per key, at the place of its first occurrence and with
  the value of its last one. Two keys are the same when they are equal in Python, where
  \<open>True\<close>, \<open>1\<close> and \<open>1.0\<close> are.
\<close>

definition key_number :: "cy_value \<Rightarrow> real option" where
  "key_number v =
     (case v of
        CBool b \<Rightarrow> Some (if b then 1 else 0)
      | CInt i \<Rightarrow> Some (of_int i)
      | CFloat x \<Rightarrow> Some x
      | _ \<Rightarrow> None)"

definition same_key :: "cy_value \<Rightarrow> cy_value \<Rightarrow> bool" where
  "same_key a b =
     (case (key_number a, key_number b) of
        (Some x, Some y) \<Rightarrow> x = y
      | (None, None) \<Rightarrow> a = b
      | _ \<Rightarrow> False)"

fun dict_set :: "(cy_value \<times> cy_value) list \<Rightarrow> cy_value \<Rightarrow> cy_value \<Rightarrow> (cy_value \<times> cy_value) list" where
  "dict_set [] k w = [(k, w)]"
| "dict_set ((k', w') # d) k w =
     (if same_key k' k then (k', w) # d else (k', w') # dict_set d k w)"

fun dict_of_list :: "(cy_value \<times> cy_value) list \<Rightarrow> cy_value list \<Rightarrow> (cy_value \<times> cy_value) list option" where
  "dict_of_list d [] = Some d"
| "dict_of_list d (v # vs) =
     (case as_pair v of
        None \<Rightarrow> None
      | Some (k, w) \<Rightarrow> dict_of_list (dict_set d k w) vs)"

definition neo4j_value_to_basic :: "cy_value \<Rightarrow> basic" where
  "neo4j_value_to_basic v =
     (case v of
        CNull \<Rightarrow> BNone
      | CBool b \<Rightarrow> BBool b
      | CInt i \<Rightarrow> BInt i
      | CFloat x \<Rightarrow> BFloat x
      | CStr s \<Rightarrow> BStr s
      | CNode labels props \<Rightarrow>
          BDict [(CStr ''__neo4j_node__'', CBool True), (CStr ''labels'', CList (map CStr labels)),
                 (CStr ''properties'', CMap props)]
      | CRel ty props \<Rightarrow>
          BDict [(CStr ''__neo4j_rel__'', CBool True), (CStr ''type'', CStr ty),
                 (CStr ''properties'', CMap props)]
      | CMap m \<Rightarrow> BDict (map (\<lambda>(k, w). (CStr k, w)) m)
      | CList vs \<Rightarrow> (case dict_of_list [] vs of Some kvs \<Rightarrow> BDict kvs | None \<Rightarrow> BList vs))"

text \<open>\<open>KGPipeline.execute_cypher\<close>: raises without a driver, and passes on what the
  session raises.\<close>

definition execute_cypher :: "KGPipeline \<Rightarrow> cypher \<Rightarrow> py_exn + (string \<times> basic) list list" where
  "execute_cypher kg q =
     (case kg_driver kg of
        None \<Rightarrow> Inl (RuntimeError ''Neo4j driver not connected'')
      | Some drv \<Rightarrow>
          (case session_run drv q of
             Inl e \<Rightarrow> Inl e
           | Inr result \<Rightarrow> Inr (map (map (\<lambda>(k, val). (k, neo4j_value_to_basic val))) result)))"

text \<open>Truth value of a converted value, \<open>rec.get(key)\<close> and \<open>v or default\<close>.\<close>

definition truthy :: "basic \<Rightarrow> bool" where
  "truthy v =
     (case v of
        BNone \<Rightarrow> False
      | BBool b \<Rightarrow> b
      | BInt i \<Rightarrow> i \<noteq> 0
      | BFloat x \<Rightarrow> x \<noteq> 0
      | BStr s \<Rightarrow> s \<noteq> []
      | BList vs \<Rightarrow> vs \<noteq> []
      | BDict kvs \<Rightarrow> kvs \<noteq> [])"

definition rec_get :: "(string \<times> basic) list \<Rightarrow> string \<Rightarrow> basic" where
  "rec_get rec k = (case map_of rec k of None \<Rightarrow> BNone | Some v \<Rightarrow> v)"

definition or_basic :: "basic \<Rightarrow> basic \<Rightarrow> basic" where
  "or_basic v dflt = (if truthy v then v else dflt)"

text \<open>The dictionary that \<open>query_kg\<close> builds for one record.\<close>

record RawTriple =
  t_subject :: basic
  t_relation :: basic
  t_object :: basic
  t_supporting_pmids :: "string list"

definition raw_triple :: "library \<Rightarrow> (string \<times> basic) list \<Rightarrow> RawTriple" where
  "raw_triple lib rec =
     (let supporting_pmids = or_basic (rec_get rec ''supporting_pmids'') (BList [])
      in \<lparr>t_subject = or_basic (rec_get rec ''subject'') (BStr []),
          t_relation = or_basic (rec_get rec ''relation'') (BStr []),
          t_object = or_basic (rec_get rec ''object'') (BStr []),
          t_supporting_pmids =
            (case supporting_pmids of
               BList vs \<Rightarrow> map (py_str lib) (filter (\<lambda>x. x \<noteq> CNull) vs)
             | _ \<Rightarrow> [])\<rparr>)"

text \<open>\<open>KGPipeline.query_kg\<close>: raises without a driver; an exception of the query is
  logged and answered with the empty list.\<close>

definition query_kg ::
  "library \<Rightarrow> KGPipeline \<Rightarrow> string \<Rightarrow> int \<Rightarrow> string list option \<Rightarrow> py_exn + RawTriple list" where
  "query_kg lib kg query limit entities =
     (if \<not> kg_is_ready kg then Inl (RuntimeError ''Neo4j driver not connected'')
      else
        let entities_to_search =
              (case entities of Some (e # es) \<Rightarrow> e # es | _ \<Rightarrow> extract_entities query)
        in (case execute_cypher kg (TripleQuery entities_to_search limit) of
              Inl e \<Rightarrow> Inr []
            | Inr results \<Rightarrow> Inr (map (raw_triple lib) results)))"

section \<open>The raw-query route\<close>

record CypherResponse =
  cr_query :: string
  cr_parameters :: "(string \<times> pyval) list"
  cr_results :: "(string \<times> basic) list list"
  cr_result_count :: nat

text \<open>\<open>execute_cypher_query\<close> of \<open>routers/kg.py\<close>; \<open>parameters\<close> is \<open>None\<close> when the
  request has none.\<close>

definition execute_cypher_query ::
  "KGPipeline \<Rightarrow> string \<Rightarrow> (string \<times> pyval) list option \<Rightarrow> HTTPException + CypherResponse" where
  "execute_cypher_query kg cypher_query parameters =
     (if \<not> kg_is_ready kg then Inl (HTTPException 503 ''Knowledge Graph not available'')
      else if is_dangerous cypher_query
      then Inl (HTTPException 400 ''Query appears to contain write/destructive operations. Only read queries allowed.'')
      else
        let params = (case parameters of None \<Rightarrow> [] | Some ps \<Rightarrow> ps)
        in (case execute_cypher kg (RawQuery cypher_query params) of
              Inl e \<Rightarrow> Inl (HTTPException 500 (''Error executing Cypher query: '' @ exn_str e))
            | Inr results \<Rightarrow>
                Inr \<lparr>cr_query = cypher_query, cr_parameters = params, cr_results = results,
                     cr_result_count = length results\<rparr>))"

section \<open>The hypothesis route\<close>

text \<open>The fallbacks of \<open>routers/hypothesis.py\<close>. \<open>create_fallback_hypothesis\<close> builds
  its hypothesis only \<open>if evidence\<close>.\<close>

definition router_fallback_hypothesis :: "string \<Rightarrow> EvidenceItem list \<Rightarrow> Hypothesis" where
  "router_fallback_hypothesis query evidence =
     \<lparr>h_id = ''H1'',
      h_statement = ''Potential therapeutic intervention for '' @ query
                    @ '' based on molecular mechanisms identified in literature'',
      h_type = EVIDENCE_BACKED,
      h_plausibility = MEDIUM,
      h_confidence_score = 0.6,
      h_supporting_evidence = map evidence_line (take 3 evidence),
      h_mechanistic_rationale = ''Based on associations between key biological pathways and disease mechanisms identified in the retrieved literature. The evidence suggests potential targets for intervention.'',
      h_suggested_experiment =
        \<lparr>se_model = ''In vitro neuronal cell culture'',
         se_intervention = ''Small molecule screening targeting identified pathways'',
         se_primary_outcome = ''Reduction in pathological biomarkers'',
         se_design_summary = ''Dose-response study with appropriate controls'',
         se_safety_measures = Some ''Standard laboratory safety protocols and ethical guidelines''\<rparr>,
      h_limitations = ''Limited by the scope of available literature and requires experimental validation in relevant models.''\<rparr>"

definition create_fallback_hypothesis ::
  "string \<Rightarrow> EvidenceItem list \<Rightarrow> KGTriple list \<Rightarrow> Hypothesis list" where
  "create_fallback_hypothesis query evidence kg_triples =
     (if evidence \<noteq> [] then [router_fallback_hypothesis query evidence] else [])"

definition create_fallback_summary :: "string \<Rightarrow> EvidenceItem list \<Rightarrow> SummarySection" where
  "create_fallback_summary query evidence =
     \<lparr>ss_overview = ''Research analysis on '' @ [CHR 0x27] @ query @ [CHR 0x27] @ '' based on ''
                     @ str_nat (length evidence) @ '' retrieved papers'',
      ss_key_findings = map evidence_line (take 3 evidence),
      ss_knowledge_gaps = [''Need for more comprehensive mechanistic studies'',
                           ''Limited understanding of underlying molecular pathways''],
      ss_implications = ''Suggests potential for developing novel therapeutic approaches targeting identified mechanisms''\<rparr>"

text \<open>The three long-lived pipelines of the route. \<open>llm_agent\<close> is \<open>None\<close> when the
  construction of the agent raised.\<close>

record Pipelines =
  rag_pipeline :: RAGPipeline
  kg_pipeline :: KGPipeline
  llm_agent :: "LLMAgent option"

text \<open>\<open>[t.strip() for t in s.split() if len(t) > 2]\<close>.\<close>

definition long_tokens :: "string \<Rightarrow> string list" where
  "long_tokens s = map strip (filter (\<lambda>t. length t > 2) (split s))"

text \<open>The entities of the route: up to six tokens of the query, then up to three of the
  title of each of the first three evidence items.\<close>

definition route_entities :: "string \<Rightarrow> EvidenceItem list \<Rightarrow> string list" where
  "route_entities query evidence_out =
     take 6 (long_tokens query)
     @ concat (map (\<lambda>ev. if ev_title ev \<noteq> [] then take 3 (long_tokens (ev_title ev)) else [])
                 (take 3 evidence_out))"

text \<open>The loop that removes duplicates, comparing in lower case.\<close>

fun dedupe_entities :: "string list \<Rightarrow> string set \<Rightarrow> string list \<Rightarrow> string list" where
  "dedupe_entities [] seen entities_unique = entities_unique"
| "dedupe_entities (e # entities) seen entities_unique =
     (if lower e \<notin> seen then dedupe_entities entities (insert (lower e) seen) (entities_unique @ [e])
      else dedupe_entities entities seen entities_unique)"

text \<open>One pass of the loop over \<open>raw_triples\<close>; \<open>None\<close> is the validation error of a
  field that is no string, caught and skipped.\<close>

definition kg_triple_from :: "RawTriple \<Rightarrow> KGTriple option" where
  "kg_triple_from t =
     (case (or_basic (t_subject t) (BStr []), or_basic (t_relation t) (BStr []),
            or_basic (t_object t) (BStr [])) of
        (BStr subj, BStr rel, BStr obj) \<Rightarrow>
          Some \<lparr>kt_subject = subj, kt_relation = rel, kt_object = obj,
                kt_supporting_pmids = filter (\<lambda>x. x \<noteq> []) (t_supporting_pmids t)\<rparr>
      | _ \<Rightarrow> None)"

fun triples_loop :: "RawTriple list \<Rightarrow> KGTriple list \<Rightarrow> KGTriple list" where
  "triples_loop [] kg_triples_out = kg_triples_out"
| "triples_loop (t # raw_triples) kg_triples_out =
     (case kg_triple_from t of
        None \<Rightarrow> triples_loop raw_triples kg_triples_out
      | Some triple \<Rightarrow> triples_loop raw_triples (kg_triples_out @ [triple]))"

text \<open>Step 2 of the route, with its \<open>try\<close>: an exception leaves no triples.\<close>

definition query_graph_stage ::
  "library \<Rightarrow> KGPipeline \<Rightarrow> string \<Rightarrow> EvidenceItem list \<Rightarrow> KGTriple list" where
  "query_graph_stage lib kg query evidence_out =
     (let entities_unique = dedupe_entities (route_entities query evidence_out) {} []
      in if kg_is_ready kg
         then (case query_kg lib kg query 10
                      (if entities_unique = [] then None else Some entities_unique) of
                 Inl e \<Rightarrow> []
               | Inr raw_triples \<Rightarrow> triples_loop raw_triples [])
         else [])"

text \<open>Step 3 of the route.\<close>

definition summary_stage ::
  "library \<Rightarrow> LLMAgent option \<Rightarrow> string \<Rightarrow> EvidenceItem list \<Rightarrow> llm_event list
     \<Rightarrow> SummarySection \<times> llm_event list" where
  "summary_stage lib agent query evidence_out hist =
     (case agent of
        Some a \<Rightarrow> agent_generate_summary lib a query evidence_out hist
      | None \<Rightarrow> (create_fallback_summary query evidence_out, hist))"

definition base_note :: "nat \<Rightarrow> nat \<Rightarrow> string" where
  "base_note n_evidence missing_pmid_count =
     ''Retrieved '' @ str_nat n_evidence @ '' evidence items. '' @ str_nat missing_pmid_count
     @ '' items skipped due to missing pmid.''"

text \<open>\<open>a or b\<close> for the note of the agent's response.\<close>

definition note_or :: "string option \<Rightarrow> string \<Rightarrow> string" where
  "note_or n dflt = (case n of None \<Rightarrow> dflt | Some s \<Rightarrow> if s = [] then dflt else s)"

text \<open>Step 4 of the route: hypotheses, summary, note and the history of the handle.\<close>

definition hypothesis_stage ::
  "library \<Rightarrow> LLMAgent option \<Rightarrow> QueryRequest \<Rightarrow> string \<Rightarrow> EvidenceItem list \<Rightarrow> KGTriple list
     \<Rightarrow> SummarySection \<Rightarrow> string \<Rightarrow> llm_event list
     \<Rightarrow> Hypothesis list \<times> SummarySection option \<times> string \<times> llm_event list" where
  "hypothesis_stage lib agent payload query evidence_out kg_triples_out summary_out note hist =
     (let not_available =
            (create_fallback_hypothesis query evidence_out kg_triples_out, Some summary_out,
             note @ '' Used fallback hypothesis generation (LLM not available).'', hist)
      in case agent of
           None \<Rightarrow> not_available
         | Some a \<Rightarrow>
             if agent_is_ready a
             then (case agent_generate_hypothesis lib a payload evidence_out kg_triples_out hist of
                     (Inr llm_response, hist') \<Rightarrow>
                       (hr_hypotheses llm_response,
                        (case hr_summary llm_response of None \<Rightarrow> Some summary_out | Some s \<Rightarrow> Some s),
                        note_or (hr_note llm_response) note, hist')
                   | (Inl e, hist') \<Rightarrow>
                       (create_fallback_hypothesis query evidence_out kg_triples_out, Some summary_out,
                        note @ '' Error in LLM generation: '' @ exn_str e @ ''. Used fallback.'', hist'))
             else not_available)"

text \<open>
  \<open>generate_hypothesis\<close>, the \<open>/generate\<close> route. The readiness test of the evidence
  pipeline compares a field with \<open>None\<close> and does not raise, so of the three handlers
  around it only the status 503 is written down.
\<close>

definition generate_hypothesis ::
  "library \<Rightarrow> Pipelines \<Rightarrow> QueryRequest \<Rightarrow> llm_event list
     \<Rightarrow> (HTTPException + HypothesisResponse) \<times> llm_event list" where
  "generate_hypothesis lib env payload hist =
     (let query = strip (qr_query payload) in
      if query = [] then (Inl (HTTPException 400 ''Query must not be empty.''), hist)
      else if \<not> rag_is_ready (rag_pipeline env)
      then (Inl (HTTPException 503 ''Vector store not ready. Build the index first.''), hist)
      else
        (case retrieve (rag_pipeline env) query (qr_top_k payload) of
           Inl e \<Rightarrow> (Inl (HTTPException 500 (''Retrieval error: '' @ exn_str e)), hist)
         | Inr raw_results \<Rightarrow>
             (case convert_results raw_results [] 0 of
                (evidence_out, missing_pmid_count) \<Rightarrow>
                  let kg_triples_out = query_graph_stage lib (kg_pipeline env) query evidence_out in
                  (case summary_stage lib (llm_agent env) query evidence_out hist of
                     (summary_out, hist1) \<Rightarrow>
                       (case hypothesis_stage lib (llm_agent env) payload query evidence_out
                               kg_triples_out summary_out
                               (base_note (length evidence_out) missing_pmid_count) hist1 of
                          (hypotheses_out, summary_final, note, hist2) \<Rightarrow>
                            (Inr \<lparr>hr_query = query, hr_summary = summary_final,
                                  hr_hypotheses = hypotheses_out, hr_evidence = evidence_out,
                                  hr_kg_triples = kg_triples_out, hr_note = Some note\<rparr>,
                             hist2))))))"

section \<open>Functions that follow the specification\<close>

text \<open>
  The entity extraction as the specification words it: tokens are the maximal runs of
  characters that are neither whitespace nor commas; they are put in lower case, those
  longer than two characters are kept, duplicates are dropped so that the first
  occurrence stays, and at most six remain.
\<close>

definition spec_tokens :: "string \<Rightarrow> string list" where
  "spec_tokens query = split_by (\<lambda>c. is_space c \<or> c = CHR '','') [] query"

definition keep_first :: "'a list \<Rightarrow> 'a list" where
  "keep_first xs = rev (remdups (rev xs))"

definition spec_entities :: "string \<Rightarrow> string list" where
  "spec_entities query =
     take 6 (keep_first (map lower (filter (\<lambda>t. length t > 2) (spec_tokens query))))"

text \<open>
  The retrieval as the specification words it: of the results of the backend, taken in its
  order, the ones kept are those whose pmid is usable and occurs at no earlier position.
  \<open>keep\<close> computes the same results with the set of pmids already seen.
\<close>

definition result_pmid :: "Document \<times> real \<Rightarrow> string" where
  "result_pmid r = doc_pmid (fst r)"

definition kept_positions :: "(Document \<times> real) list \<Rightarrow> nat list" where
  "kept_positions results =
     filter (\<lambda>i. \<not> pmid_unusable (result_pmid (results ! i))
                 \<and> (\<forall>j < i. result_pmid (results ! j) \<noteq> result_pmid (results ! i)))
       [0..<length results]"

fun keep :: "string set \<Rightarrow> (Document \<times> real) list \<Rightarrow> (Document \<times> real) list" where
  "keep S [] = []"
| "keep S (r # rs) =
     (if pmid_unusable (result_pmid r) \<or> result_pmid r \<in> S then keep S rs
      else r # keep (insert (result_pmid r) S) rs)"


definition temperature_assignable :: "LLM \<Rightarrow> real \<Rightarrow> bool" where
  "temperature_assignable l t =
     (case llm_temperature l of None \<Rightarrow> True | Some assign \<Rightarrow> assign t = None)"

text \<open>
  The entities of the route: the positions of \<open>first_spellings\<close> are those of the
  entities that no earlier entity equals in lower case, and \<open>pipeline_entities\<close> are the
  entities that \<open>query_kg\<close> searches for when the route calls it.
\<close>

definition first_spellings :: "string list \<Rightarrow> nat list" where
  "first_spellings es =
     filter (\<lambda>i. \<forall>j < i. lower (es ! j) \<noteq> lower (es ! i)) [0..<length es]"

definition pipeline_entities :: "string \<Rightarrow> EvidenceItem list \<Rightarrow> string list" where
  "pipeline_entities query evidence_out =
     (let entities_unique = dedupe_entities (route_entities query evidence_out) {} []
      in if entities_unique = [] then extract_entities query else entities_unique)"

text \<open>The \<open>query\<close> and the \<open>note\<close> of a response built from the parsed output;
  \<open>None\<close> is a validation error.\<close>

definition parsed_query :: "library \<Rightarrow> (string \<times> pyval) list \<Rightarrow> QueryRequest \<Rightarrow> string option" where
  "parsed_query lib d request =
     (case map_of d ''query'' of None \<Rightarrow> Some (qr_query request) | Some v \<Rightarrow> co_str lib v)"

definition parsed_note :: "library \<Rightarrow> (string \<times> pyval) list \<Rightarrow> string option option" where
  "parsed_note lib d =
     (case map_of d ''note'' of
        None \<Rightarrow> Some (Some ''Hypotheses generated successfully with research summary'')
      | Some PNone \<Rightarrow> Some None
      | Some v \<Rightarrow> map_option Some (co_str lib v))"

section \<open>Sample inputs\<close>

text \<open>A document as \<open>build_index\<close> stores it, with its pmid and title.\<close>

definition paper :: "string \<Rightarrow> string \<Rightarrow> Document" where
  "paper p t = \<lparr>doc_metadata = [(''pmid'', p), (''title'', t), (''source'', ''pubmed'')],
                doc_page_content = ''Title: '' @ t\<rparr>"

text \<open>A connected graph pipeline whose graph has one edge.\<close>

definition sample_graph :: KGPipeline where
  "sample_graph =
     \<lparr>kg_driver = Some \<lparr>neo_graph = [(\<lparr>n_name = Some ''NLRP3'', n_title = None, n_abstract = None\<rparr>,
                                      ''INVOLVED_IN'',
                                      \<lparr>n_name = None, n_title = Some ''Neuroinflammation'', n_abstract = None\<rparr>)],
                        neo_failure = None, neo_run_raw = (\<lambda>t p. Inr [])\<rparr>\<rparr>"

text \<open>A library that decodes nothing, converts a string to \<open>str\<close> and a number to
  \<open>float\<close>, and nothing else.\<close>

definition sample_library :: library where
  "sample_library =
     \<lparr>json_loads = (\<lambda>s. None),
      co_str = (\<lambda>v. case v of PStr s \<Rightarrow> Some s | _ \<Rightarrow> None),
      co_float = (\<lambda>v. case v of PFloat x \<Rightarrow> Some x | PInt i \<Rightarrow> Some (of_int i) | _ \<Rightarrow> None),
      py_str = (\<lambda>v. case v of CStr s \<Rightarrow> s | _ \<Rightarrow> [])\<rparr>"

text \<open>A document without a pmid, a request with the default fields, and the pipelines of
  a deployment that has a vector store, no graph connection and no agent.\<close>

definition unidentified :: "string \<Rightarrow> Document" where
  "unidentified t = \<lparr>doc_metadata = [(''title'', t), (''source'', ''pubmed'')],
                     doc_page_content = ''Title: '' @ t\<rparr>"

definition request_for :: "string \<Rightarrow> QueryRequest" where
  "request_for q = \<lparr>qr_query = q, qr_seeded_input = None, qr_top_k = 5, qr_creative_mode = False,
                qr_temperature = 0\<rparr>"

definition evidence_only :: "vectorstore \<Rightarrow> Pipelines" where
  "evidence_only store =
     \<lparr>rag_pipeline = \<lparr>rag_vectorstore = Some store\<rparr>, kg_pipeline = \<lparr>kg_driver = None\<rparr>,
      llm_agent = None\<rparr>"

text \<open>Pipelines whose graph session raises and whose generative backend raises on every
  call, behind a vector store with one document.\<close>

definition degraded :: Pipelines where
  "degraded =
     \<lparr>rag_pipeline = \<lparr>rag_vectorstore = Some (\<lambda>q k. Inr [(paper ''101'' ''Tau'', 1)])\<rparr>,
      kg_pipeline = \<lparr>kg_driver = Some \<lparr>neo_graph = [], neo_failure = Some (BackendError ''session expired''),
                                        neo_run_raw = (\<lambda>t p. Inr [])\<rparr>\<rparr>,
      llm_agent = Some \<lparr>agent_llm = Some \<lparr>llm_invoke = (\<lambda>h r. Inl (BackendError ''timeout'')),
                                           llm_has_invoke = True, llm_temperature = None\<rparr>\<rparr>\<rparr>"

text \<open>Five candidates of the similarity search, two of them without a pmid.\<close>

definition five_candidates :: "(Document \<times> real) list" where
  "five_candidates =
     [(paper ''101'' ''A'', 1), (unidentified ''B'', 2), (paper ''102'' ''C'', 3),
      (unidentified ''D'', 4), (paper ''103'' ''E'', 5)]"

text \<open>The evidence item that the route builds from \<open>paper ''101'' ''Tau''\<close>.\<close>

definition tau_evidence :: EvidenceItem where
  "tau_evidence = \<lparr>ev_pmid = ''101'', ev_title = ''Tau'', ev_snippet = ''Title: Tau'',
                    ev_score = Some 1, ev_source = Some ''pubmed''\<rparr>"

text \<open>An agent whose backend answers every call with the same content, a library that
  decodes every text to the same value, and a hypothesis record with a given confidence
  score together with the hypothesis it validates to.\<close>

definition answering :: "string \<Rightarrow> LLMAgent" where
  "answering content =
     \<lparr>agent_llm = Some \<lparr>llm_invoke = (\<lambda>h r. Inr content), llm_has_invoke = True,
                         llm_temperature = None\<rparr>\<rparr>"

definition decoding :: "pyval \<Rightarrow> library" where
  "decoding v = sample_library\<lparr>json_loads := (\<lambda>s. Some v)\<rparr>"

definition scored_record :: "real \<Rightarrow> pyval" where
  "scored_record c =
     PDict [(''id'', PStr ''H1''), (''statement'', PStr ''Tau drives decline''),
            (''confidence_score'', PFloat c), (''mechanistic_rationale'', PStr ''Aggregation''),
            (''limitations'', PStr ''Small cohorts'')]"

definition scored_hypothesis :: "real \<Rightarrow> Hypothesis" where
  "scored_hypothesis c =
     \<lparr>h_id = ''H1'', h_statement = ''Tau drives decline'', h_type = EVIDENCE_BACKED,
      h_plausibility = MEDIUM, h_confidence_score = c, h_supporting_evidence = [],
      h_mechanistic_rationale = ''Aggregation'',
      h_suggested_experiment =
        \<lparr>se_model = ''Not specified'', se_intervention = ''Not specified'',
         se_primary_outcome = ''Not specified'', se_design_summary = ''Not specified'',
         se_safety_measures = None\<rparr>,
      h_limitations = ''Small cohorts''\<rparr>"

text \<open>An output of the shape that the system prompt asks for, with given hypothesis
  records.\<close>

definition conforming_output :: "pyval list \<Rightarrow> pyval" where
  "conforming_output entries =
     PDict [(''query'', PStr ''tau''), (''hypotheses'', PList entries),
            (''note'', PStr ''Generated from the evidence'')]"

section \<open>Strings: auxiliary facts\<close>

lemma contains_iff: "contains s sub \<longleftrightarrow> (\<exists>ps ss. s = ps @ sub @ ss)"
proof (induction s)
  case Nil
  then show ?case by auto
next
  case (Cons c cs)
  have a: "startswith (c # cs) sub \<longleftrightarrow> (\<exists>ss. c # cs = sub @ ss)"
    unfolding startswith_def
    by (metis append_eq_conv_conj)
  show ?case
  proof
    assume "contains (c # cs) sub"
    then consider "startswith (c # cs) sub" | "contains cs sub" by auto
    then show "\<exists>ps ss. c # cs = ps @ sub @ ss"
    proof cases
      case 1
      then obtain ss where "c # cs = sub @ ss" using a by blast
      then have "c # cs = [] @ sub @ ss" by simp
      then show ?thesis by blast
    next
      case 2
      then obtain ps ss where "cs = ps @ sub @ ss" using Cons.IH by blast
      then have "c # cs = (c # ps) @ sub @ ss" by simp
      then show ?thesis by blast
    qed
  next
    assume "\<exists>ps ss. c # cs = ps @ sub @ ss"
    then obtain ps ss where e: "c # cs = ps @ sub @ ss" by blast
    show "contains (c # cs) sub"
    proof (cases ps)
      case Nil
      with e have "startswith (c # cs) sub" using a by auto
      then show ?thesis by simp
    next
      case (Cons p ps')
      with e have "cs = ps' @ sub @ ss" by simp
      then have "contains cs sub" using Cons.IH by blast
      then show ?thesis by simp
    qed
  qed
qed

section \<open>The raw-query guard rejects exactly the queries that contain a keyword\<close>

text \<open>
  Claim C7. On a connected graph pipeline, the raw-query route answers a query with the
  status 400 exactly when its upper-cased text contains one of DROP, DELETE, REMOVE, CREATE,
  MERGE, SET, DETACH as a substring; every other query is handed to the backend, whose
  records or whose error (as status 500) are returned. In particular
  \<open>MATCH (n) RETURN n\<close> is handed on and \<open>CREATED_BY\<close> is rejected.
\<close>

theorem cypher_guard:
  assumes "kg_is_ready kg"
  shows "execute_cypher_query kg cypher_query parameters =
           (if (\<exists>tok \<in> set dangerous. \<exists>ps ss. upper cypher_query = ps @ tok @ ss)
            then Inl (HTTPException 400 ''Query appears to contain write/destructive operations. Only read queries allowed.'')
            else (case execute_cypher kg
                         (RawQuery cypher_query (case parameters of None \<Rightarrow> [] | Some ps \<Rightarrow> ps)) of
                    Inl e \<Rightarrow> Inl (HTTPException 500 (''Error executing Cypher query: '' @ exn_str e))
                  | Inr results \<Rightarrow>
                      Inr \<lparr>cr_query = cypher_query,
                           cr_parameters = (case parameters of None \<Rightarrow> [] | Some ps \<Rightarrow> ps),
                           cr_results = results, cr_result_count = length results\<rparr>))
         \<and> \<not> (\<exists>tok \<in> set dangerous. \<exists>ps ss. upper ''MATCH (n) RETURN n'' = ps @ tok @ ss)
         \<and> (\<exists>ps ss. upper ''CREATED_BY'' = ps @ ''CREATE'' @ ss) \<and> ''CREATE'' \<in> set dangerous"
proof -
  have d: "is_dangerous q \<longleftrightarrow> (\<exists>tok \<in> set dangerous. \<exists>ps ss. upper q = ps @ tok @ ss)" for q
    by (simp only: is_dangerous_def contains_iff)
  have m: "\<not> is_dangerous ''MATCH (n) RETURN n''"
    by (simp add: is_dangerous_def dangerous_def upper_def upper_char_def startswith_def)
  have c: "contains (upper ''CREATED_BY'') ''CREATE''"
    by (simp add: upper_def upper_char_def startswith_def)
  have r: "execute_cypher_query kg cypher_query parameters =
           (if is_dangerous cypher_query
            then Inl (HTTPException 400 ''Query appears to contain write/destructive operations. Only read queries allowed.'')
            else (case execute_cypher kg
                         (RawQuery cypher_query (case parameters of None \<Rightarrow> [] | Some ps \<Rightarrow> ps)) of
                    Inl e \<Rightarrow> Inl (HTTPException 500 (''Error executing Cypher query: '' @ exn_str e))
                  | Inr results \<Rightarrow>
                      Inr \<lparr>cr_query = cypher_query,
                           cr_parameters = (case parameters of None \<Rightarrow> [] | Some ps \<Rightarrow> ps),
                           cr_results = results, cr_result_count = length results\<rparr>))"
    using assms by (simp add: execute_cypher_query_def Let_def)
  show ?thesis
    using m c unfolding r d contains_iff by (simp add: dangerous_def)
qed

theorem cypher_guard_witness:
  "execute_cypher_query \<lparr>kg_driver = Some \<lparr>neo_graph = [], neo_failure = None,
                                            neo_run_raw = (\<lambda>t p. Inr [])\<rparr>\<rparr>
     ''MATCH (n) RETURN n'' None =
     Inr \<lparr>cr_query = ''MATCH (n) RETURN n'', cr_parameters = [], cr_results = [],
          cr_result_count = 0\<rparr>"
proof -
  have k: "kg_is_ready \<lparr>kg_driver = Some \<lparr>neo_graph = [], neo_failure = None,
                                           neo_run_raw = (\<lambda>t p. Inr [])\<rparr>\<rparr>"
    by (simp add: kg_is_ready_def)
  show ?thesis
    using cypher_guard[OF k, of "''MATCH (n) RETURN n''" None]
    by (simp add: execute_cypher_def session_run_def)
qed

section \<open>Entity extraction\<close>

lemma keep_first_Cons: "keep_first (x # xs) = x # filter (\<lambda>y. y \<noteq> x) (keep_first xs)"
proof -
  have r: "remdups (ys @ [x]) = filter (\<lambda>y. y \<noteq> x) (remdups ys) @ [x]" for ys
    by (induction ys) auto
  show ?thesis
    by (simp add: keep_first_def r rev_filter)
qed

lemma keep_first_Nil: "keep_first [] = []"
  by (simp add: keep_first_def)

lemma collect_seen_take:
  "length seen < 6 \<Longrightarrow>
   collect_seen seen ts = take 6 (seen @ filter (\<lambda>t. t \<notin> set seen) (keep_first ts))"
proof (induction ts arbitrary: seen)
  case Nil
  then show ?case by (simp add: keep_first_Nil)
next
  case (Cons t ts)
  show ?case
  proof (cases "t \<in> set seen")
    case True
    have "filter (\<lambda>y. y \<notin> set seen) (filter (\<lambda>y. y \<noteq> t) (keep_first ts))
          = filter (\<lambda>y. y \<notin> set seen) (keep_first ts)"
      using True by (auto intro: filter_cong)
    with True Cons show ?thesis by (simp add: keep_first_Cons)
  next
    case False
    have f: "filter (\<lambda>y. y \<notin> set seen) (filter (\<lambda>y. y \<noteq> t) (keep_first ts))
          = filter (\<lambda>y. y \<notin> set (seen @ [t])) (keep_first ts)"
      by (auto intro: filter_cong)
    show ?thesis
    proof (cases "length (seen @ [t]) \<ge> 6")
      case True
      with Cons.prems have "length seen = 5" by simp
      with False True show ?thesis by (simp add: keep_first_Cons)
    next
      case False': False
      then have "length (seen @ [t]) < 6" by simp
      from Cons.IH[OF this] False False' f show ?thesis
        by (simp add: keep_first_Cons)
    qed
  qed
qed

lemma split_replace_comma:
  "split_by is_space cur (replace_comma s) = split_by (\<lambda>c. is_space c \<or> c = CHR '','') cur s"
  by (induction s arbitrary: cur) (auto simp: replace_comma_def is_space_def)

lemma split_by_no_sep:
  "\<forall>c \<in> set cur. \<not> sep c \<Longrightarrow> \<forall>t \<in> set (split_by sep cur s). \<forall>c \<in> set t. \<not> sep c"
proof (induction s arbitrary: cur)
  case Nil
  then show ?case by simp
next
  case (Cons a s)
  have e: "\<forall>t \<in> set (split_by sep [] s). \<forall>c \<in> set t. \<not> sep c"
    using Cons.IH[of "[]"] by simp
  show ?case
  proof (cases "sep a")
    case True
    with e Cons.prems show ?thesis by simp
  next
    case False
    with Cons.prems have "\<forall>c \<in> set (a # cur). \<not> sep c" by simp
    from Cons.IH[OF this] False show ?thesis by simp
  qed
qed

lemma strip_no_space: "\<forall>c \<in> set t. \<not> is_space c \<Longrightarrow> strip t = t"
proof -
  assume a: "\<forall>c \<in> set t. \<not> is_space c"
  have d: "dropWhile is_space u = u" if "\<forall>c \<in> set u. \<not> is_space c" for u
    using that by (cases u) auto
  show ?thesis using a by (simp add: strip_def d)
qed

lemma spec_tokens_no_space: "t \<in> set (spec_tokens query) \<Longrightarrow> c \<in> set t \<Longrightarrow> \<not> is_space c"
proof -
  assume t: "t \<in> set (spec_tokens query)" and c: "c \<in> set t"
  have "\<forall>c \<in> set ([]::string). \<not> (is_space c \<or> c = CHR '','')" by simp
  from split_by_no_sep[OF this, of query] t c
  have "\<not> (is_space c \<or> c = CHR '','')"
    unfolding spec_tokens_def by blast
  then show ?thesis by blast
qed

lemma entity_tokens_spec:
  "entity_tokens query = map lower (filter (\<lambda>t. length t > 2) (spec_tokens query))"
proof -
  have s: "strip t = t" if "t \<in> set (spec_tokens query)" for t
    using that spec_tokens_no_space strip_no_space by blast
  have e: "split (replace_comma query) = spec_tokens query"
    by (simp add: split_def spec_tokens_def split_replace_comma)
  have f: "filter (\<lambda>t. length (strip t) > 2) (spec_tokens query)
           = filter (\<lambda>t. length t > 2) (spec_tokens query)"
    by (rule filter_cong) (simp_all add: s)
  have m: "map (\<lambda>t. lower (strip t)) (filter (\<lambda>t. length t > 2) (spec_tokens query))
           = map lower (filter (\<lambda>t. length t > 2) (spec_tokens query))"
    by (rule map_cong) (simp_all add: s)
  show ?thesis
    by (simp only: entity_tokens_def e f m)
qed

lemma extract_entities_spec:
  "extract_entities query =
     (if query = [] then [''disease'', ''treatment'', ''gene'']
      else if spec_entities query = [] then [''disease''] else spec_entities query)
   \<and> extract_entities query \<noteq> [] \<and> length (extract_entities query) \<le> 6"
proof -
  have c: "collect_seen [] (entity_tokens query) = spec_entities query"
    using collect_seen_take[of "[]" "entity_tokens query"]
    by (simp add: spec_entities_def entity_tokens_spec)
  have l: "length (spec_entities query) \<le> 6"
    by (simp add: spec_entities_def)
  show ?thesis using l by (simp add: extract_entities_def c Let_def)
qed

section \<open>Evidence retrieval keeps the first result of every usable pmid\<close>

lemma retrieve_loop_keep:
  "retrieve_loop rs S out = out @ map (\<lambda>r. make_retrieved (fst r) (snd r)) (keep S rs)"
  by (induction rs S out rule: retrieve_loop.induct) (simp_all add: result_pmid_def)

lemma keep_positions:
  "keep S rs =
     map (\<lambda>i. rs ! i)
       (filter (\<lambda>i. \<not> pmid_unusable (result_pmid (rs ! i)) \<and> result_pmid (rs ! i) \<notin> S
                   \<and> (\<forall>j < i. result_pmid (rs ! j) \<noteq> result_pmid (rs ! i)))
          [0..<length rs])"
proof (induction rs arbitrary: S)
  case Nil
  then show ?case by simp
next
  case (Cons r rs)
  let ?P = "\<lambda>S i. \<not> pmid_unusable (result_pmid (rs ! i)) \<and> result_pmid (rs ! i) \<notin> S
                   \<and> (\<forall>j < i. result_pmid (rs ! j) \<noteq> result_pmid (rs ! i))"
  let ?Q = "\<lambda>i. \<not> pmid_unusable (result_pmid ((r # rs) ! i)) \<and> result_pmid ((r # rs) ! i) \<notin> S
                   \<and> (\<forall>j < i. result_pmid ((r # rs) ! j) \<noteq> result_pmid ((r # rs) ! i))"
  have up: "[0..<length (r # rs)] = 0 # map Suc [0..<length rs]"
    by (simp add: upt_conv_Cons map_Suc_upt del: upt_Suc)
  have all_Suc: "(\<forall>j < Suc i. A j) \<longleftrightarrow> A 0 \<and> (\<forall>j < i. A (Suc j))" for A i
    by (metis less_Suc_eq_0_disj)
  have Q_Suc: "?Q (Suc i) \<longleftrightarrow> ?P S i \<and> result_pmid r \<noteq> result_pmid (rs ! i)" for i
    by (auto simp: all_Suc)
  have q: "(?Q \<circ> Suc) = (\<lambda>i. ?P S i \<and> result_pmid r \<noteq> result_pmid (rs ! i))"
    by (rule ext) (simp only: comp_def Q_Suc)
  have "filter ?Q (map Suc [0..<length rs])
        = map Suc (filter (\<lambda>i. ?P S i \<and> result_pmid r \<noteq> result_pmid (rs ! i)) [0..<length rs])"
    by (simp only: filter_map q)
  then have tail: "map (\<lambda>i. (r # rs) ! i) (filter ?Q (map Suc [0..<length rs]))
              = map (\<lambda>i. rs ! i) (filter (\<lambda>i. ?P S i \<and> result_pmid r \<noteq> result_pmid (rs ! i)) [0..<length rs])"
    by (simp add: comp_def)
  show ?case
  proof (cases "pmid_unusable (result_pmid r) \<or> result_pmid r \<in> S")
    case True
    have "filter (\<lambda>i. ?P S i \<and> result_pmid r \<noteq> result_pmid (rs ! i)) [0..<length rs]
          = filter (?P S) [0..<length rs]"
      using True by (intro filter_cong) auto
    with True tail Cons.IH[of S] show ?thesis
      unfolding up by auto
  next
    case False
    have "filter (\<lambda>i. ?P S i \<and> result_pmid r \<noteq> result_pmid (rs ! i)) [0..<length rs]
          = filter (?P (insert (result_pmid r) S)) [0..<length rs]"
      by (intro filter_cong) auto
    with False tail Cons.IH[of "insert (result_pmid r) S"] show ?thesis
      unfolding up by auto
  qed
qed

lemma keep_distinct:
  "distinct (map result_pmid (keep S rs))
   \<and> (\<forall>r \<in> set (keep S rs). result_pmid r \<notin> S \<and> \<not> pmid_unusable (result_pmid r))"
proof (induction rs arbitrary: S)
  case Nil
  then show ?case by simp
next
  case (Cons r rs)
  show ?case
  proof (cases "pmid_unusable (result_pmid r) \<or> result_pmid r \<in> S")
    case True
    with Cons.IH[of S] show ?thesis by simp
  next
    case False
    from Cons.IH[of "insert (result_pmid r) S"]
    have d: "distinct (map result_pmid (keep (insert (result_pmid r) S) rs))"
      and m: "\<forall>x \<in> set (keep (insert (result_pmid r) S) rs).
                result_pmid x \<notin> insert (result_pmid r) S \<and> \<not> pmid_unusable (result_pmid x)"
      by blast+
    from m have "result_pmid r \<notin> result_pmid ` set (keep (insert (result_pmid r) S) rs)"
      by auto
    with False d m show ?thesis by simp
  qed
qed

lemma r_pmid_make: "r_pmid (make_retrieved d s) = doc_pmid d"
  by (simp add: make_retrieved_def)

text \<open>
  Claim C3. When the store answers the search with a list of results, \<open>retrieve\<close>
  returns exactly the results at the positions whose pmid (stripped) is usable, that is
  neither missing, empty nor one of nan, none in any case, and occurs at no earlier
  position, in the order of the backend. So no two items of the evidence share a pmid, the
  item kept for a pmid is its first occurrence, and no item has an unusable pmid.
\<close>

theorem retrieve_dedup:
  assumes "rag_vectorstore rag = Some search" and "search query k = Inr results"
  shows "retrieve rag query k =
           Inr (map (\<lambda>i. make_retrieved (fst (results ! i)) (snd (results ! i))) (kept_positions results))
         \<and> (\<forall>out. retrieve rag query k = Inr out \<longrightarrow>
               distinct (map r_pmid out)
             \<and> (\<forall>e \<in> set out. r_pmid e \<noteq> [] \<and> lower (r_pmid e) \<notin> {''nan'', ''none'', []}))"
proof -
  have k: "keep {} results = map (\<lambda>i. results ! i) (kept_positions results)"
    unfolding kept_positions_def keep_positions by simp
  have r: "retrieve rag query k = Inr (map (\<lambda>r. make_retrieved (fst r) (snd r)) (keep {} results))"
    using assms by (simp add: retrieve_def retrieve_loop_keep)
  have m: "map r_pmid (map (\<lambda>r. make_retrieved (fst r) (snd r)) (keep {} results))
           = map result_pmid (keep {} results)"
    by (simp add: r_pmid_make result_pmid_def comp_def)
  have d: "distinct (map r_pmid (map (\<lambda>r. make_retrieved (fst r) (snd r)) (keep {} results)))"
    unfolding m using keep_distinct[of "{}" results] by blast
  have u: "\<forall>e \<in> set (map (\<lambda>r. make_retrieved (fst r) (snd r)) (keep {} results)).
             r_pmid e \<noteq> [] \<and> lower (r_pmid e) \<notin> {''nan'', ''none'', []}"
    using keep_distinct[of "{}" results]
    by (auto simp: r_pmid_make result_pmid_def pmid_unusable_def)
  show ?thesis
    unfolding r using d u by (simp add: k comp_def)
qed

theorem retrieve_dedup_witness:
  "retrieve \<lparr>rag_vectorstore = Some (\<lambda>q k. Inr [(paper ''101'' ''A'', 1), (paper ''NaN'' ''B'', 2),
                                                 (paper '' 101'' ''C'', 3), (paper ''102'' ''D'', 4)])\<rparr>
     ''alzheimer'' 5
   = Inr [make_retrieved (paper ''101'' ''A'') 1, make_retrieved (paper ''102'' ''D'') 4]"
proof -
  let ?results = "[(paper ''101'' ''A'', 1::real), (paper ''NaN'' ''B'', 2),
                   (paper '' 101'' ''C'', 3), (paper ''102'' ''D'', 4)]"
  let ?search = "\<lambda>(q::string) (k::int). (Inr ?results :: py_exn + (Document \<times> real) list)"
  have a: "rag_vectorstore \<lparr>rag_vectorstore = Some ?search\<rparr> = Some ?search" by simp
  have b: "?search ''alzheimer'' 5 = Inr ?results" by simp
  have p: "doc_pmid (paper ''101'' ''A'') = ''101''" "doc_pmid (paper ''NaN'' ''B'') = ''NaN''"
    "doc_pmid (paper '' 101'' ''C'') = ''101''" "doc_pmid (paper ''102'' ''D'') = ''102''"
    by (simp_all add: doc_pmid_def meta_get_def paper_def strip_def is_space_def)
  have u: "\<not> pmid_unusable ''101''" "pmid_unusable ''NaN''" "\<not> pmid_unusable ''102''"
    by (simp_all add: pmid_unusable_def lower_def lower_char_def)
  have k: "kept_positions ?results = [0, 3]"
    by (simp add: kept_positions_def result_pmid_def p u upt_rec less_Suc_eq all_conj_distrib numeral_eq_Suc)
  show ?thesis
    using retrieve_dedup[OF a b] by (simp add: k)
qed

section \<open>Summaries without evidence\<close>

text \<open>
  Claim C8. For every query, when the evidence list is empty, the summary generator (and
  with it the agent and the summary step of the route) returns the no-evidence summary,
  whose overview says that no papers were retrieved for the query and which differs from
  the fallback summary, and leaves the history of the backend handle unchanged: no call is
  made.
\<close>

theorem empty_evidence_summary:
  "sg_generate_summary lib llm query [] hist = (create_empty_summary query, hist)
   \<and> agent_generate_summary lib agent query [] hist = (create_empty_summary query, hist)
   \<and> summary_stage lib (Some agent) query [] hist = (create_empty_summary query, hist)
   \<and> ss_overview (create_empty_summary query) = ''No papers retrieved for query: '' @ query
   \<and> create_empty_summary query \<noteq> sg_create_fallback_summary query evidence"
proof -
  have "ss_overview (create_empty_summary query) \<noteq> ss_overview (sg_create_fallback_summary query evidence)"
    by (simp add: create_empty_summary_def sg_create_fallback_summary_def)
  then have "create_empty_summary query \<noteq> sg_create_fallback_summary query evidence"
    by auto
  then show ?thesis
    by (simp add: sg_generate_summary_def agent_generate_summary_def summary_stage_def
        create_empty_summary_def)
qed

theorem empty_evidence_summary_witness:
  "sg_generate_summary sample_library (Some \<lparr>llm_invoke = (\<lambda>h r. Inr ''{}''), llm_has_invoke = True,
                                   llm_temperature = None\<rparr>) ''tau'' [] []
   = (\<lparr>ss_overview = ''No papers retrieved for query: tau'',
       ss_key_findings = [''No evidence available for analysis''],
       ss_knowledge_gaps = [''Limited research available in the database''],
       ss_implications = ''Consider broadening search terms or updating the knowledge base''\<rparr>, [])"
  using empty_evidence_summary[of sample_library "Some \<lparr>llm_invoke = (\<lambda>h r. Inr ''{}''), llm_has_invoke = True,
                                   llm_temperature = None\<rparr>" "''tau''" "[]"]
  by (simp add: create_empty_summary_def)

section \<open>Triples of the graph query carry no supporting pmids\<close>

lemma raw_triple_row:
  "t_supporting_pmids (raw_triple lib (map (\<lambda>(k, val). (k, neo4j_value_to_basic val)) (triple_row edge))) = []"
  by (cases edge) (simp add: triple_row_def raw_triple_def rec_get_def neo4j_value_to_basic_def
      or_basic_def truthy_def Let_def)

text \<open>
  Claim C10. Every triple that \<open>query_kg\<close> returns has an empty list of supporting
  pmids, whatever the entities, the limit and the graph: the query returns the empty list
  for that field in every row, and the conversion of the row leaves it empty.
\<close>

theorem query_kg_no_supporting_pmids:
  assumes "query_kg lib kg query limit entities = Inr triples"
  shows "\<forall>t \<in> set triples. t_supporting_pmids t = []"
proof (cases "kg_driver kg")
  case None
  with assms show ?thesis by (simp add: query_kg_def kg_is_ready_def)
next
  case (Some drv)
  let ?es = "(case entities of Some (e # es) \<Rightarrow> e # es | _ \<Rightarrow> extract_entities query)"
  show ?thesis
  proof (cases "execute_cypher kg (TripleQuery ?es limit)")
    case (Inl e)
    with assms Some show ?thesis by (simp add: query_kg_def kg_is_ready_def Let_def)
  next
    case (Inr results)
    with assms Some have t: "triples = map (raw_triple lib) results"
      by (simp add: query_kg_def kg_is_ready_def Let_def)
    from Inr Some obtain rows where
      r: "results = map (map (\<lambda>(k, val). (k, neo4j_value_to_basic val))) rows"
      and s: "session_run drv (TripleQuery ?es limit) = Inr rows"
      by (auto simp: execute_cypher_def split: sum.splits)
    from s have "set rows \<subseteq> triple_row ` set (neo_graph drv)"
      by (auto simp: session_run_def split: option.splits if_splits dest!: in_set_takeD)
    then show ?thesis
      unfolding t r using raw_triple_row by auto
  qed
qed

theorem query_kg_no_supporting_pmids_witness:
  "map_sum id (map (\<lambda>t. (t_subject t, t_supporting_pmids t)))
     (query_kg sample_library sample_graph ''nlrp3'' 10 None)
   = Inr [(BStr ''NLRP3'', [])]"
proof -
  have e: "extract_entities ''nlrp3'' = [''nlrp3'']"
    by (simp add: extract_entities_def entity_tokens_def split_def replace_comma_def
        is_space_def strip_def lower_def lower_char_def)
  have q: "query_kg sample_library sample_graph ''nlrp3'' 10 None =
     Inr [\<lparr>t_subject = BStr ''NLRP3'', t_relation = BStr ''INVOLVED_IN'',
           t_object = BStr ''Neuroinflammation'', t_supporting_pmids = []\<rparr>]"
    by (simp add: query_kg_def kg_is_ready_def sample_graph_def e execute_cypher_def
        session_run_def edge_matches_def prop_contains_def lower_def lower_char_def
        startswith_def triple_row_def coalesce_name_def neo4j_value_to_basic_def raw_triple_def
        rec_get_def or_basic_def truthy_def Let_def)
  show ?thesis
    using query_kg_no_supporting_pmids[OF q] by (simp add: q)
qed

section \<open>The route always answers once evidence retrieval is ready\<close>

lemma retrieve_returns: "\<exists>raw_results. retrieve rag query k = Inr raw_results"
  by (simp add: retrieve_def split: option.splits sum.splits)

lemma query_kg_broken:
  "kg_driver kg = Some drv \<Longrightarrow> neo_failure drv = Some e \<Longrightarrow> query_kg lib kg query limit entities = Inr []"
  by (simp add: query_kg_def kg_is_ready_def execute_cypher_def session_run_def Let_def)

lemma query_graph_stage_degraded:
  "kg_driver kg = None \<or> (\<exists>drv e. kg_driver kg = Some drv \<and> neo_failure drv = Some e)
   \<Longrightarrow> query_graph_stage lib kg query evidence_out = []"
  by (auto simp: query_graph_stage_def kg_is_ready_def query_kg_broken Let_def)

text \<open>
  Claim C1. When the query is not empty after trimming and the evidence pipeline is ready,
  the route returns an assembled response, with a summary and a note, whatever the graph
  backend, the generative backend, the decoder and the validation do: no failure of the
  graph, summary or hypothesis step reaches the caller. A graph pipeline that is not
  connected, or whose session raises, leaves the response without triples, and
  \<open>query_kg\<close> answers a session that raises with the empty list.
\<close>

theorem generate_hypothesis_responds:
  assumes "strip (qr_query payload) \<noteq> []" and "rag_is_ready (rag_pipeline env)"
  shows "\<exists>response hist'.
           generate_hypothesis lib env payload hist = (Inr response, hist')
           \<and> hr_query response = strip (qr_query payload)
           \<and> hr_summary response \<noteq> None \<and> hr_note response \<noteq> None
           \<and> (kg_driver (kg_pipeline env) = None
                \<or> (\<exists>drv e. kg_driver (kg_pipeline env) = Some drv \<and> neo_failure drv = Some e)
               \<longrightarrow> hr_kg_triples response = [])
           \<and> (\<forall>drv e q limit entities.
                 kg_driver (kg_pipeline env) = Some drv \<and> neo_failure drv = Some e
                 \<longrightarrow> query_kg lib (kg_pipeline env) q limit entities = Inr [])"
proof -
  let ?query = "strip (qr_query payload)"
  obtain raw_results where r: "retrieve (rag_pipeline env) ?query (qr_top_k payload) = Inr raw_results"
    using retrieve_returns by blast
  obtain evidence_out missing where c: "convert_results raw_results [] 0 = (evidence_out, missing)"
    by (cases "convert_results raw_results [] 0")
  let ?kg = "query_graph_stage lib (kg_pipeline env) ?query evidence_out"
  obtain summary_out hist1 where
    s: "summary_stage lib (llm_agent env) ?query evidence_out hist = (summary_out, hist1)"
    by (cases "summary_stage lib (llm_agent env) ?query evidence_out hist")
  obtain hyps summary_final final_note hist2 where
    h: "hypothesis_stage lib (llm_agent env) payload ?query evidence_out ?kg summary_out
          (base_note (length evidence_out) missing) hist1 = (hyps, summary_final, final_note, hist2)"
    using prod_cases4 by blast
  have f: "summary_final \<noteq> None"
    using h
    by (auto simp: hypothesis_stage_def Let_def
        split: option.splits if_splits prod.splits sum.splits) metis
  have g: "generate_hypothesis lib env payload hist =
           (Inr \<lparr>hr_query = ?query, hr_summary = summary_final, hr_hypotheses = hyps,
                 hr_evidence = evidence_out, hr_kg_triples = ?kg, hr_note = Some final_note\<rparr>, hist2)"
    using assms r c s h by (simp add: generate_hypothesis_def Let_def)
  have k: "\<forall>drv e q limit entities.
             kg_driver (kg_pipeline env) = Some drv \<and> neo_failure drv = Some e
             \<longrightarrow> query_kg lib (kg_pipeline env) q limit entities = Inr []"
    using query_kg_broken by blast
  show ?thesis
    unfolding g using f k query_graph_stage_degraded[of "kg_pipeline env" lib ?query evidence_out]
    by auto
qed

theorem generate_hypothesis_responds_witness:
  "strip (qr_query (request_for ''alzheimer'')) \<noteq> [] \<and> rag_is_ready (rag_pipeline degraded)
   \<and> (\<exists>response hist'.
         generate_hypothesis sample_library degraded (request_for ''alzheimer'') [] = (Inr response, hist')
         \<and> hr_query response = ''alzheimer'' \<and> hr_kg_triples response = [])"
proof -
  have a: "strip (qr_query (request_for ''alzheimer'')) \<noteq> []"
    by (simp add: request_for_def strip_def is_space_def)
  have b: "rag_is_ready (rag_pipeline degraded)"
    by (simp add: degraded_def rag_is_ready_def)
  have c: "\<exists>drv e. kg_driver (kg_pipeline degraded) = Some drv \<and> neo_failure drv = Some e"
    by (simp add: degraded_def)
  have d: "strip (qr_query (request_for ''alzheimer'')) = ''alzheimer''"
    by (simp add: request_for_def strip_def is_space_def)
  show ?thesis
    using generate_hypothesis_responds[OF a b, of sample_library "[]"] a b c d by auto
qed

section \<open>An error of the similarity search\<close>

text \<open>
  Claim C2 at a concrete input: the vector store is loaded and the similarity search
  raises. \<open>retrieve\<close> catches the exception and returns the empty list, so the handler
  of the route that would answer with the status 500 is never entered: the route returns a
  response without evidence.
\<close>

theorem retrieval_error_continues:
  "generate_hypothesis sample_library
     (evidence_only (\<lambda>q k. Inl (BackendError ''index unreachable''))) (request_for ''alzheimer'') []
   = (Inr \<lparr>hr_query = ''alzheimer'',
           hr_summary = Some (create_fallback_summary ''alzheimer'' []),
           hr_hypotheses = [], hr_evidence = [], hr_kg_triples = [],
           hr_note = Some ''Retrieved 0 evidence items. 0 items skipped due to missing pmid. Used fallback hypothesis generation (LLM not available).''\<rparr>,
      [])"
  by (simp add: generate_hypothesis_def request_for_def evidence_only_def strip_def is_space_def
      rag_is_ready_def retrieve_def query_graph_stage_def kg_is_ready_def summary_stage_def
      hypothesis_stage_def create_fallback_hypothesis_def base_note_def str_nat.simps
      digit_char_def Let_def)

section \<open>The note of the response\<close>

lemma retrieve_five:
  "retrieve_loop five_candidates {} [] =
     [make_retrieved (paper ''101'' ''A'') 1, make_retrieved (paper ''102'' ''C'') 3,
      make_retrieved (paper ''103'' ''E'') 5]"
proof -
  have p: "doc_pmid (paper ''101'' ''A'') = ''101''" "doc_pmid (unidentified ''B'') = []"
    "doc_pmid (paper ''102'' ''C'') = ''102''" "doc_pmid (unidentified ''D'') = []"
    "doc_pmid (paper ''103'' ''E'') = ''103''"
    by (simp_all add: doc_pmid_def meta_get_def paper_def unidentified_def strip_def is_space_def)
  have u: "\<not> pmid_unusable ''101''" "pmid_unusable []" "\<not> pmid_unusable ''102''"
    "\<not> pmid_unusable ''103''"
    by (simp_all add: pmid_unusable_def lower_def lower_char_def)
  show ?thesis
    by (simp add: five_candidates_def p u)
qed

text \<open>
  Claim C6 at the input of the specification: the query alzheimer with \<open>top_k = 5\<close>, five
  candidates of which two lack a pmid, and no generative backend. The evidence list has
  three items and there is one hypothesis, but the note counts no skipped item: the two
  candidates are dropped inside \<open>retrieve\<close>, before the loop of the route that counts.
\<close>

theorem skipped_candidates_not_counted:
  "map_sum id (\<lambda>r. (length (hr_evidence r), hr_note r, length (hr_hypotheses r)))
     (fst (generate_hypothesis sample_library (evidence_only (\<lambda>q k. Inr five_candidates))
             (request_for ''alzheimer'') []))
   = Inr (3, Some ''Retrieved 3 evidence items. 0 items skipped due to missing pmid. Used fallback hypothesis generation (LLM not available).'', 1)"
proof -
  have s: "strip ''alzheimer'' = ''alzheimer''" "strip ''101'' = ''101''" "strip ''102'' = ''102''"
    "strip ''103'' = ''103''"
    by (simp_all add: strip_def is_space_def)
  have c: "convert_results (retrieve_loop five_candidates {} []) [] 0 =
     ([\<lparr>ev_pmid = ''101'', ev_title = ''A'', ev_snippet = ''Title: A'', ev_score = Some 1, ev_source = Some ''pubmed''\<rparr>,
       \<lparr>ev_pmid = ''102'', ev_title = ''C'', ev_snippet = ''Title: C'', ev_score = Some 3, ev_source = Some ''pubmed''\<rparr>,
       \<lparr>ev_pmid = ''103'', ev_title = ''E'', ev_snippet = ''Title: E'', ev_score = Some 5, ev_source = Some ''pubmed''\<rparr>], 0)"
    unfolding retrieve_five
    by (simp add: make_retrieved_def doc_pmid_def meta_get_def paper_def make_snippet_def or_str_def s)
  show ?thesis
    by (simp add: generate_hypothesis_def request_for_def evidence_only_def s
      rag_is_ready_def retrieve_def c query_graph_stage_def kg_is_ready_def summary_stage_def
      hypothesis_stage_def create_fallback_hypothesis_def base_note_def str_nat.simps
      digit_char_def Let_def)
qed

section \<open>The fallback hypothesis\<close>













section \<open>Validation of the generated hypotheses\<close>

lemma hypotheses_loop_map_filter:
  "hypotheses_loop lib entries acc = acc @ List.map_filter (hypothesis_from lib) entries"
  by (induction entries arbitrary: acc) (auto simp: List.map_filter_simps split: option.splits)

lemma map_of_default_experiment:
  "k \<noteq> ''suggested_experiment'' \<Longrightarrow>
   map_of (if map_of d ''suggested_experiment'' = None
           then d @ [(''suggested_experiment'', default_experiment)] else d) k = map_of d k"
  by (simp add: map_add_def split: option.splits)

lemma Hypothesis_of_Some:
  assumes "Hypothesis_of lib d = Some h"
  shows "req_str lib d ''id'' \<noteq> None \<and> req_str lib d ''statement'' \<noteq> None
         \<and> req_str lib d ''mechanistic_rationale'' \<noteq> None \<and> req_str lib d ''limitations'' \<noteq> None
         \<and> (\<forall>v. map_of d ''confidence_score'' = Some v \<longrightarrow> confidence_of lib v \<noteq> None)"
  using assms unfolding Hypothesis_of_def
  by (auto simp: bind_eq_Some_conv)

lemma missing_required:
  assumes "k \<in> {''id'', ''statement'', ''mechanistic_rationale'', ''limitations''}"
    and "map_of d k = None"
  shows "hypothesis_from lib (PDict d) = None"
proof -
  let ?d = "(if map_of d ''suggested_experiment'' = None
            then d @ [(''suggested_experiment'', default_experiment)] else d)"
  from assms(1) have "k \<noteq> ''suggested_experiment''" by auto
  with assms(2) have "map_of ?d k = None"
    using map_of_default_experiment[of k d] by simp
  then have "req_str lib ?d k = None" by (simp add: req_str_def)
  with assms(1) have "Hypothesis_of lib ?d = None"
    using Hypothesis_of_Some[of lib ?d] by (cases "Hypothesis_of lib ?d") auto
  then show ?thesis by (simp add: hypothesis_from_def)
qed

lemma out_of_range:
  assumes "map_of d ''confidence_score'' = Some v" and "co_float lib v = Some c"
    and "c < 0 \<or> 1 < c"
  shows "hypothesis_from lib (PDict d) = None"
proof -
  let ?d = "(if map_of d ''suggested_experiment'' = None
            then d @ [(''suggested_experiment'', default_experiment)] else d)"
  have m: "map_of ?d ''confidence_score'' = Some v"
    using assms(1) map_of_default_experiment[of "''confidence_score''" d] by simp
  have "confidence_of lib v = None"
    using assms(2,3) by (auto simp: confidence_of_def)
  with m have "Hypothesis_of lib ?d = None"
    using Hypothesis_of_Some[of lib ?d] by (cases "Hypothesis_of lib ?d") auto
  then show ?thesis by (simp add: hypothesis_from_def)
qed

lemma parsed_response:
  assumes "clean_json_response content = Inr cleaned" and "json_loads lib cleaned = Some (PDict d)"
    and "map_of d ''hypotheses'' = Some (PList entries)"
    and "map_of d ''query'' = None" and "map_of d ''note'' = None"
  shows "response_from_content lib content request summary evidence kg_triples
         = Some \<lparr>hr_query = qr_query request, hr_summary = Some summary,
                 hr_hypotheses = List.map_filter (hypothesis_from lib) entries,
                 hr_evidence = evidence, hr_kg_triples = kg_triples,
                 hr_note = Some ''Hypotheses generated successfully with research summary''\<rparr>"
  using assms
  by (simp add: response_from_content_def py_iter_def response_from_parsed_def
      hypotheses_loop_map_filter)

lemma scored_record_valid:
  "0 \<le> c \<Longrightarrow> c \<le> 1 \<Longrightarrow> hypothesis_from (decoding v) (scored_record c) = Some (scored_hypothesis c)"
  by (simp add: hypothesis_from_def scored_record_def Hypothesis_of_def req_str_def
      decoding_def sample_library_def confidence_of_def default_experiment_def
      SuggestedExperiment_of_def opt_str_def scored_hypothesis_def)

lemma scored_record_invalid:
  "1 < c \<Longrightarrow> hypothesis_from (decoding v) (scored_record c) = None"
  unfolding scored_record_def
  by (rule out_of_range[of _ "PFloat c" _ c]) (simp_all add: decoding_def sample_library_def)

lemma string_entry_invalid: "hypothesis_from lib (PStr s) = None"
  by (simp add: hypothesis_from_def)

lemma clean_braces: "clean_json_response ''{}'' = Inr ''{}''"
  by (simp add: clean_json_response_def strip_fences_def startswith_def strip_def is_space_def Let_def)

lemma answered_run:
  "fst (agent_generate_hypothesis (decoding (PDict [(''hypotheses'', PList entries)]))
          (answering ''{}'') (request_for ''tau'') [] [] [])
   = Inr \<lparr>hr_query = ''tau'', hr_summary = Some (create_empty_summary ''tau''),
          hr_hypotheses = List.map_filter
                            (hypothesis_from (decoding (PDict [(''hypotheses'', PList entries)]))) entries,
          hr_evidence = [], hr_kg_triples = [],
          hr_note = Some ''Hypotheses generated successfully with research summary''\<rparr>"
proof -
  have p: "response_from_content (decoding (PDict [(''hypotheses'', PList entries)])) ''{}''
             (request_for ''tau'') (create_empty_summary ''tau'') [] []
           = Some \<lparr>hr_query = qr_query (request_for ''tau''),
                   hr_summary = Some (create_empty_summary ''tau''),
                   hr_hypotheses = List.map_filter
                            (hypothesis_from (decoding (PDict [(''hypotheses'', PList entries)]))) entries,
                   hr_evidence = [], hr_kg_triples = [],
                   hr_note = Some ''Hypotheses generated successfully with research summary''\<rparr>"
  proof (rule parsed_response[OF clean_braces])
    show "json_loads (decoding (PDict [(''hypotheses'', PList entries)])) ''{}''
          = Some (PDict [(''hypotheses'', PList entries)])"
      by (simp add: decoding_def)
  qed simp_all
  have q: "qr_query (request_for ''tau'') = ''tau''" by (simp add: request_for_def)
  show ?thesis
    using p unfolding q
    by (simp add: agent_generate_hypothesis_def agent_generate_summary_def
        sg_generate_summary_def answering_def invoke_def q)
qed

text \<open>
  Claim C4, as stated, fails twice. When the only record has a confidence score of 1.5,
  no record survives, and the agent returns an empty list of hypotheses with the note of a
  successful generation: it does not fall back. And two valid records with the same id are
  both kept.
\<close>

theorem invalid_records_counterexample:
  "map_sum id (\<lambda>r. (hr_hypotheses r, hr_note r))
     (fst (agent_generate_hypothesis (decoding (PDict [(''hypotheses'', PList [scored_record 1.5])]))
             (answering ''{}'') (request_for ''tau'') [] [] []))
   = Inr ([], Some ''Hypotheses generated successfully with research summary'')
   \<and> map_sum id (\<lambda>r. map h_id (hr_hypotheses r))
     (fst (agent_generate_hypothesis
             (decoding (PDict [(''hypotheses'', PList [scored_record 0.5, scored_record 0.5])]))
             (answering ''{}'') (request_for ''tau'') [] [] []))
   = Inr [''H1'', ''H1'']"
  unfolding answered_run
  by (simp add: List.map_filter_simps scored_record_valid scored_record_invalid
      scored_hypothesis_def)

lemma parsed_response_general:
  assumes "clean_json_response content = Inr cleaned" and "json_loads lib cleaned = Some (PDict d)"
    and "map_of d ''hypotheses'' = Some hs" and "py_iter hs = Some entries"
    and "parsed_query lib d request = Some q" and "parsed_note lib d = Some n"
  shows "response_from_content lib content request summary evidence kg_triples
         = Some \<lparr>hr_query = q, hr_summary = Some summary,
                 hr_hypotheses = List.map_filter (hypothesis_from lib) entries,
                 hr_evidence = evidence, hr_kg_triples = kg_triples, hr_note = n\<rparr>"
proof -
  have "response_from_parsed lib d request summary (List.map_filter (hypothesis_from lib) entries)
          evidence kg_triples
        = Some \<lparr>hr_query = q, hr_summary = Some summary,
                 hr_hypotheses = List.map_filter (hypothesis_from lib) entries,
                 hr_evidence = evidence, hr_kg_triples = kg_triples, hr_note = n\<rparr>"
    using assms(5,6)
    by (simp add: response_from_parsed_def parsed_query_def parsed_note_def)
  with assms(1-4) show ?thesis
    by (simp add: response_from_content_def hypotheses_loop_map_filter)
qed

text \<open>
  Claim C4, amended. When the backend answers the hypothesis prompt, its content is cleaned
  and decoded to an object whose \<open>hypotheses\<close> can be iterated and whose \<open>query\<close> and
  \<open>note\<close>, where present, validate, the agent returns exactly the records that pass
  validation, in their order, with the query and the note of the output: each failing
  record is skipped alone, and when none is left the list of hypotheses is empty and the
  agent does not fall back. An entry that is no object fails, as does a record without one
  of the required fields \<open>id\<close>, \<open>statement\<close>, \<open>mechanistic_rationale\<close>,
  \<open>limitations\<close>, and a record whose confidence score lies outside the interval from 0
  to 1. Ids are not compared.
\<close>

theorem invalid_records_skipped:
  assumes "agent_llm agent = Some l" and "llm_has_invoke l"
    and "temperature_assignable l (qr_temperature request)"
    and "\<forall>h. llm_invoke l h
               (HypothesisRequest (qr_query request)
                  (map (\<lambda>item. (ev_pmid item, ev_title item, ev_snippet item, ev_score item))
                     (take 5 evidence))
                  (take 3 kg_triples) (qr_seeded_input request)) = Inr content"
    and "clean_json_response content = Inr cleaned"
    and "json_loads lib cleaned = Some (PDict d)"
    and "map_of d ''hypotheses'' = Some hs" and "py_iter hs = Some entries"
    and "parsed_query lib d request = Some q" and "parsed_note lib d = Some n"
  shows "(\<exists>response hist'.
            agent_generate_hypothesis lib agent request evidence kg_triples hist = (Inr response, hist')
            \<and> hr_hypotheses response = List.map_filter (hypothesis_from lib) entries
            \<and> hr_query response = q \<and> hr_note response = n)
         \<and> (\<forall>entry. (\<forall>rec. entry \<noteq> PDict rec) \<longrightarrow> hypothesis_from lib entry = None)
         \<and> (\<forall>rec. (\<exists>k \<in> {''id'', ''statement'', ''mechanistic_rationale'', ''limitations''}.
                        map_of rec k = None)
                \<longrightarrow> hypothesis_from lib (PDict rec) = None)
         \<and> (\<forall>rec v c. map_of rec ''confidence_score'' = Some v \<and> co_float lib v = Some c
                        \<and> (c < 0 \<or> 1 < c)
                \<longrightarrow> hypothesis_from lib (PDict rec) = None)"
proof -
  obtain summary hist1 where
    s: "agent_generate_summary lib agent (qr_query request) evidence hist = (summary, hist1)"
    by (cases "agent_generate_summary lib agent (qr_query request) evidence hist")
  define hist2 where "hist2 = (case llm_temperature l of None \<Rightarrow> hist1
                               | Some assign \<Rightarrow> hist1 @ [TemperatureSet (qr_temperature request)])"
  have t: "(case llm_temperature l of
              None \<Rightarrow> Inr hist1
            | Some assign \<Rightarrow>
                (case assign (qr_temperature request) of
                   Some e \<Rightarrow> Inl e
                 | None \<Rightarrow> Inr (hist1 @ [TemperatureSet (qr_temperature request)])))
           = (Inr hist2 :: py_exn + llm_event list)"
    using assms(3) by (auto simp: temperature_assignable_def hist2_def split: option.splits)
  let ?req = "HypothesisRequest (qr_query request)
                (map (\<lambda>item. (ev_pmid item, ev_title item, ev_snippet item, ev_score item))
                   (take 5 evidence))
                (take 3 kg_triples) (qr_seeded_input request)"
  have i: "llm_invoke l hist2 ?req = Inr content" using assms(4) by blast
  have "agent_generate_hypothesis lib agent request evidence kg_triples hist
        = (Inr \<lparr>hr_query = q, hr_summary = Some summary,
                 hr_hypotheses = List.map_filter (hypothesis_from lib) entries,
                 hr_evidence = evidence, hr_kg_triples = kg_triples, hr_note = n\<rparr>,
           hist2 @ [Invoked ?req])"
    using assms(1,2) s t i parsed_response_general[OF assms(5-10)]
    by (simp add: agent_generate_hypothesis_def invoke_def)
  then have a: "\<exists>response hist'.
            agent_generate_hypothesis lib agent request evidence kg_triples hist = (Inr response, hist')
            \<and> hr_hypotheses response = List.map_filter (hypothesis_from lib) entries
            \<and> hr_query response = q \<and> hr_note response = n"
    by simp
  have b: "\<forall>entry. (\<forall>rec. entry \<noteq> PDict rec) \<longrightarrow> hypothesis_from lib entry = None"
    by (auto simp: hypothesis_from_def split: pyval.splits)
  have c: "\<forall>rec. (\<exists>k \<in> {''id'', ''statement'', ''mechanistic_rationale'', ''limitations''}.
                        map_of rec k = None)
                \<longrightarrow> hypothesis_from lib (PDict rec) = None"
    using missing_required by blast
  have d: "\<forall>rec v c. map_of rec ''confidence_score'' = Some v \<and> co_float lib v = Some c
                        \<and> (c < 0 \<or> 1 < c)
                \<longrightarrow> hypothesis_from lib (PDict rec) = None"
    using out_of_range by blast
  from a b c d show ?thesis by (intro conjI)
qed

theorem invalid_records_skipped_witness:
  "\<exists>response hist'.
     agent_generate_hypothesis
       (decoding (conforming_output [scored_record 1.5, scored_record 0.5, PStr ''H3'']))
       (answering ''{}'') (request_for ''tau'') [tau_evidence] [] [] = (Inr response, hist')
     \<and> hr_hypotheses response = [scored_hypothesis 0.5]
     \<and> hr_query response = ''tau'' \<and> hr_note response = Some ''Generated from the evidence''"
proof -
  let ?entries = "[scored_record 1.5, scored_record 0.5, PStr ''H3'']"
  let ?d = "[(''query'', PStr ''tau''), (''hypotheses'', PList ?entries),
             (''note'', PStr ''Generated from the evidence'')]"
  let ?lib = "decoding (conforming_output ?entries)"
  let ?l = "\<lparr>llm_invoke = (\<lambda>h r. Inr ''{}''), llm_has_invoke = True, llm_temperature = None\<rparr>"
  have 1: "agent_llm (answering ''{}'') = Some ?l" by (simp add: answering_def)
  have 2: "llm_has_invoke ?l" by simp
  have 3: "temperature_assignable ?l (qr_temperature (request_for ''tau''))"
    by (simp add: temperature_assignable_def)
  have 4: "\<forall>h. llm_invoke ?l h
               (HypothesisRequest (qr_query (request_for ''tau''))
                  (map (\<lambda>item. (ev_pmid item, ev_title item, ev_snippet item, ev_score item))
                     (take 5 [tau_evidence]))
                  (take 3 []) (qr_seeded_input (request_for ''tau''))) = Inr ''{}''" by simp
  have 6: "json_loads ?lib ''{}'' = Some (PDict ?d)"
    by (simp add: decoding_def conforming_output_def)
  have 7: "map_of ?d ''hypotheses'' = Some (PList ?entries)" by simp
  have 8: "py_iter (PList ?entries) = Some ?entries" by (simp add: py_iter_def)
  have 9: "parsed_query ?lib ?d (request_for ''tau'') = Some ''tau''"
    by (simp add: parsed_query_def decoding_def sample_library_def)
  have 10: "parsed_note ?lib ?d = Some (Some ''Generated from the evidence'')"
    by (simp add: parsed_note_def decoding_def sample_library_def)
  have m: "List.map_filter (hypothesis_from ?lib) ?entries = [scored_hypothesis 0.5]"
    by (simp add: List.map_filter_simps scored_record_valid scored_record_invalid
        string_entry_invalid)
  show ?thesis
    using invalid_records_skipped[OF 1 2 3 4 clean_braces 6 7 8 9 10, of "[]"] m
    by auto
qed

section \<open>The entities of the graph pipeline and of the route\<close>

lemma dedupe_entities_positions:
  "dedupe_entities es S acc =
     acc @ map (\<lambda>i. es ! i)
             (filter (\<lambda>i. lower (es ! i) \<notin> S \<and> (\<forall>j < i. lower (es ! j) \<noteq> lower (es ! i)))
                [0..<length es])"
proof (induction es arbitrary: S acc)
  case Nil
  then show ?case by simp
next
  case (Cons e es)
  let ?P = "\<lambda>S i. lower (es ! i) \<notin> S \<and> (\<forall>j < i. lower (es ! j) \<noteq> lower (es ! i))"
  let ?Q = "\<lambda>i. lower ((e # es) ! i) \<notin> S
                \<and> (\<forall>j < i. lower ((e # es) ! j) \<noteq> lower ((e # es) ! i))"
  have up: "[0..<length (e # es)] = 0 # map Suc [0..<length es]"
    by (simp add: upt_conv_Cons map_Suc_upt del: upt_Suc)
  have all_Suc: "(\<forall>j < Suc i. A j) \<longleftrightarrow> A 0 \<and> (\<forall>j < i. A (Suc j))" for A i
    by (metis less_Suc_eq_0_disj)
  have Q_Suc: "?Q (Suc i) \<longleftrightarrow> ?P S i \<and> lower e \<noteq> lower (es ! i)" for i
    by (auto simp: all_Suc)
  have q: "(?Q \<circ> Suc) = (\<lambda>i. ?P S i \<and> lower e \<noteq> lower (es ! i))"
    by (rule ext) (simp only: comp_def Q_Suc)
  have "filter ?Q (map Suc [0..<length es])
        = map Suc (filter (\<lambda>i. ?P S i \<and> lower e \<noteq> lower (es ! i)) [0..<length es])"
    by (simp only: filter_map q)
  then have tail: "map (\<lambda>i. (e # es) ! i) (filter ?Q (map Suc [0..<length es]))
              = map (\<lambda>i. es ! i) (filter (\<lambda>i. ?P S i \<and> lower e \<noteq> lower (es ! i)) [0..<length es])"
    by (simp add: comp_def)
  show ?case
  proof (cases "lower e \<in> S")
    case True
    have "filter (\<lambda>i. ?P S i \<and> lower e \<noteq> lower (es ! i)) [0..<length es]
          = filter (?P S) [0..<length es]"
      using True by (intro filter_cong) auto
    with True tail Cons.IH[of S acc] show ?thesis
      unfolding up by auto
  next
    case False
    have "filter (\<lambda>i. ?P S i \<and> lower e \<noteq> lower (es ! i)) [0..<length es]
          = filter (?P (insert (lower e) S)) [0..<length es]"
      by (intro filter_cong) auto
    with False tail Cons.IH[of "insert (lower e) S" "acc @ [e]"] show ?thesis
      unfolding up by auto
  qed
qed

lemma split_no_space: "t \<in> set (split s) \<Longrightarrow> c \<in> set t \<Longrightarrow> \<not> is_space c"
proof -
  assume t: "t \<in> set (split s)" and c: "c \<in> set t"
  have "\<forall>c \<in> set ([]::string). \<not> is_space c" by simp
  from split_by_no_sep[OF this, of s] t c show ?thesis
    unfolding split_def by blast
qed

lemma long_tokens_split: "long_tokens s = filter (\<lambda>t. length t > 2) (split s)"
proof -
  have "map strip (filter (\<lambda>t. length t > 2) (split s))
        = map (\<lambda>t. t) (filter (\<lambda>t. length t > 2) (split s))"
    by (rule map_cong) (use split_no_space strip_no_space in auto)
  then show ?thesis by (simp add: long_tokens_def)
qed

lemma split_empty: "split [] = []"
  by (simp add: split_def)

lemma route_entities_tokens:
  "route_entities query evidence_out =
     take 6 (filter (\<lambda>t. length t > 2) (split query))
     @ concat (map (\<lambda>ev. take 3 (filter (\<lambda>t. length t > 2) (split (ev_title ev))))
                 (take 3 evidence_out))"
proof -
  have e: "(\<lambda>ev. if ev_title ev \<noteq> [] then take 3 (long_tokens (ev_title ev)) else [])
        = (\<lambda>ev. take 3 (filter (\<lambda>t. length t > 2) (split (ev_title ev))))"
    by (rule ext) (simp add: long_tokens_split split_empty)
  show ?thesis
    unfolding route_entities_def e by (simp only: long_tokens_split)
qed

lemma concat_bound:
  "(\<And>x. length (f x) \<le> n) \<Longrightarrow> length (concat (map f xs)) \<le> n * length xs"
proof (induction xs)
  case Nil
  then show ?case by simp
next
  case (Cons x xs)
  from Cons.prems have a: "length (f x) \<le> n" by blast
  from Cons.IH Cons.prems have b: "length (concat (map f xs)) \<le> n * length xs" by blast
  from a b show ?case by simp
qed

lemma route_entities_length: "length (route_entities query evidence_out) \<le> 15"
proof -
  have "length (concat (map (\<lambda>ev. take 3 (filter (\<lambda>t. length t > 2) (split (ev_title ev))))
                 (take 3 evidence_out))) \<le> 3 * length (take 3 evidence_out)"
    by (rule concat_bound) simp
  also have "\<dots> \<le> 9" by simp
  finally show ?thesis by (simp add: route_entities_tokens)
qed

lemma query_graph_stage_entities:
  assumes "kg_is_ready kg"
  shows "query_graph_stage lib kg query evidence_out =
           (case execute_cypher kg (TripleQuery (pipeline_entities query evidence_out) 10) of
              Inl e \<Rightarrow> []
            | Inr results \<Rightarrow> triples_loop (map (raw_triple lib) results) [])"
proof (cases "dedupe_entities (route_entities query evidence_out) {} []")
  case Nil
  with assms show ?thesis
    by (simp add: query_graph_stage_def query_kg_def pipeline_entities_def Let_def
        split: sum.splits)
next
  case (Cons e es)
  with assms show ?thesis
    by (simp add: query_graph_stage_def query_kg_def pipeline_entities_def Let_def
        split: sum.splits)
qed

lemma dedupe_first_spellings:
  "dedupe_entities es {} [] = map (\<lambda>i. es ! i) (first_spellings es)"
  by (simp add: dedupe_entities_positions first_spellings_def)

lemma dedupe_length: "length (dedupe_entities es {} []) \<le> length es"
proof -
  have "length (first_spellings es) \<le> length [0..<length es]"
    unfolding first_spellings_def by (rule length_filter_le)
  then show ?thesis by (simp add: dedupe_first_spellings)
qed

lemma extract_entities_nonempty: "extract_entities query \<noteq> []"
  by (simp add: extract_entities_def Let_def)

lemma split_tau: "split ''Tau,Amyloid'' = [''Tau,Amyloid'']"
  by (simp add: split_def is_space_def)

lemma split_six: "split ''aaa bbb ccc ddd eee fff'' = [''aaa'', ''bbb'', ''ccc'', ''ddd'', ''eee'', ''fff'']"
  by (simp add: split_def is_space_def)

lemma split_three: "split ''ggg hhh iii'' = [''ggg'', ''hhh'', ''iii'']"
  by (simp add: split_def is_space_def)

text \<open>
  Claim C9, as stated, fails. In \<open>_extract_entities\<close> the empty query is answered with
  three default entities and a non-empty query without a usable token with one, so there
  is no single default entity. And the extraction that the route runs does not split on
  commas, keeps the case of the tokens, and may pass more than six entities, here nine.
\<close>

theorem entity_extraction_counterexample:
  "spec_entities [] = [] \<and> extract_entities [] = [''disease'', ''treatment'', ''gene'']
   \<and> spec_entities ''a b'' = [] \<and> extract_entities ''a b'' = [''disease'']
   \<and> spec_entities ''Tau,Amyloid'' = [''tau'', ''amyloid'']
   \<and> pipeline_entities ''Tau,Amyloid'' [] = [''Tau,Amyloid'']
   \<and> length (pipeline_entities ''aaa bbb ccc ddd eee fff''
                [tau_evidence\<lparr>ev_title := ''ggg hhh iii''\<rparr>]) = 9"
proof -
  have 1: "spec_entities [] = [] \<and> extract_entities [] = [''disease'', ''treatment'', ''gene'']
   \<and> spec_entities ''a b'' = [] \<and> extract_entities ''a b'' = [''disease'']"
    by (simp add: spec_entities_def spec_tokens_def keep_first_def extract_entities_def
      entity_tokens_def split_def replace_comma_def is_space_def strip_def)
  have 2: "spec_entities ''Tau,Amyloid'' = [''tau'', ''amyloid'']"
    by (simp add: spec_entities_def spec_tokens_def keep_first_def is_space_def lower_def
        lower_char_def)
  have 3: "pipeline_entities ''Tau,Amyloid'' [] = [''Tau,Amyloid'']"
    by (simp add: pipeline_entities_def route_entities_tokens split_tau lower_def lower_char_def)
  have 4: "pipeline_entities ''aaa bbb ccc ddd eee fff'' [tau_evidence\<lparr>ev_title := ''ggg hhh iii''\<rparr>]
           = [''aaa'', ''bbb'', ''ccc'', ''ddd'', ''eee'', ''fff'', ''ggg'', ''hhh'', ''iii'']"
    by (simp add: pipeline_entities_def route_entities_tokens split_six split_three lower_def
        lower_char_def)
  show ?thesis using 1 2 3 by (simp add: 4)
qed

text \<open>
  Claim C9, amended. \<open>_extract_entities\<close> returns the three defaults disease, treatment,
  gene for the empty query; for every other query it returns the tokens of the
  specification (split on whitespace and commas, lower case, longer than two characters,
  first occurrences, at most six), or the single default disease when there is none; its
  result is never empty and never longer than six. The route derives its entities
  otherwise: the tokens of the query split on whitespace only and longer than two
  characters, at most six of them, then at most three such tokens of the title of each of
  the first three evidence items, in their own spelling; of these it keeps the first
  spelling of every entity compared in lower case, which leaves at most fifteen. The graph
  is searched for these entities, and for those of \<open>_extract_entities\<close> only when the
  route found none, so never for an empty list.
\<close>

theorem entity_extraction_amended:
  "extract_entities query =
     (if query = [] then [''disease'', ''treatment'', ''gene'']
      else if spec_entities query = [] then [''disease''] else spec_entities query)
   \<and> extract_entities query \<noteq> [] \<and> length (extract_entities query) \<le> 6
   \<and> route_entities query evidence_out =
       take 6 (filter (\<lambda>t. length t > 2) (split query))
       @ concat (map (\<lambda>ev. take 3 (filter (\<lambda>t. length t > 2) (split (ev_title ev))))
                   (take 3 evidence_out))
   \<and> dedupe_entities (route_entities query evidence_out) {} [] =
       map (\<lambda>i. route_entities query evidence_out ! i)
         (first_spellings (route_entities query evidence_out))
   \<and> length (dedupe_entities (route_entities query evidence_out) {} []) \<le> 15
   \<and> pipeline_entities query evidence_out =
       (if dedupe_entities (route_entities query evidence_out) {} [] = []
        then extract_entities query
        else dedupe_entities (route_entities query evidence_out) {} [])
   \<and> pipeline_entities query evidence_out \<noteq> []
   \<and> (kg_is_ready kg \<longrightarrow>
        query_graph_stage lib kg query evidence_out =
          (case execute_cypher kg (TripleQuery (pipeline_entities query evidence_out) 10) of
             Inl e \<Rightarrow> []
           | Inr results \<Rightarrow> triples_loop (map (raw_triple lib) results) []))"
proof -
  have a: "extract_entities query =
     (if query = [] then [''disease'', ''treatment'', ''gene'']
      else if spec_entities query = [] then [''disease''] else spec_entities query)
   \<and> extract_entities query \<noteq> [] \<and> length (extract_entities query) \<le> 6"
    by (rule extract_entities_spec)
  have b: "length (dedupe_entities (route_entities query evidence_out) {} []) \<le> 15"
    using dedupe_length[of "route_entities query evidence_out"]
      route_entities_length[of query evidence_out] by linarith
  have c: "pipeline_entities query evidence_out =
       (if dedupe_entities (route_entities query evidence_out) {} [] = []
        then extract_entities query
        else dedupe_entities (route_entities query evidence_out) {} [])"
    by (simp add: pipeline_entities_def Let_def)
  have d: "pipeline_entities query evidence_out \<noteq> []"
    unfolding c using extract_entities_nonempty by simp
  have e: "kg_is_ready kg \<longrightarrow>
        query_graph_stage lib kg query evidence_out =
          (case execute_cypher kg (TripleQuery (pipeline_entities query evidence_out) 10) of
             Inl e \<Rightarrow> []
           | Inr results \<Rightarrow> triples_loop (map (raw_triple lib) results) [])"
    using query_graph_stage_entities by blast
  from a route_entities_tokens[of query evidence_out]
    dedupe_first_spellings[of "route_entities query evidence_out"] b c d e
  show ?thesis by (intro conjI) blast+
qed

lemma split_nlrp3: "split ''NLRP3 nlrp3 inflammasome'' = [''NLRP3'', ''nlrp3'', ''inflammasome'']"
  by (simp add: split_def is_space_def)

theorem entity_extraction_amended_witness:
  "kg_is_ready sample_graph
   \<and> extract_entities ''Tau, tau  amyloid-beta of AD'' = [''tau'', ''amyloid-beta'']
   \<and> pipeline_entities ''NLRP3 nlrp3 inflammasome'' [] = [''NLRP3'', ''inflammasome'']
   \<and> query_graph_stage sample_library sample_graph ''NLRP3 nlrp3 inflammasome'' []
       = [\<lparr>kt_subject = ''NLRP3'', kt_relation = ''INVOLVED_IN'', kt_object = ''Neuroinflammation'',
            kt_supporting_pmids = []\<rparr>]"
proof -
  have k: "kg_is_ready sample_graph" by (simp add: sample_graph_def kg_is_ready_def)
  have r: "route_entities ''NLRP3 nlrp3 inflammasome'' [] = [''NLRP3'', ''nlrp3'', ''inflammasome'']"
    by (simp add: route_entities_tokens split_nlrp3)
  have f: "first_spellings [''NLRP3'', ''nlrp3'', ''inflammasome''] = [0, 2]"
    by (simp add: first_spellings_def lower_def lower_char_def upt_rec less_Suc_eq
        all_conj_distrib numeral_eq_Suc)
  have x: "execute_cypher sample_graph (TripleQuery [''NLRP3'', ''inflammasome''] 10)
           = Inr [[(''subject'', BStr ''NLRP3''), (''relation'', BStr ''INVOLVED_IN''),
                   (''object'', BStr ''Neuroinflammation''), (''supporting_pmids'', BDict [])]]"
    by (simp add: sample_graph_def execute_cypher_def session_run_def edge_matches_def
        prop_contains_def lower_def lower_char_def startswith_def triple_row_def
        coalesce_name_def neo4j_value_to_basic_def)
  have t: "triples_loop (map (raw_triple sample_library)
             [[(''subject'', BStr ''NLRP3''), (''relation'', BStr ''INVOLVED_IN''),
               (''object'', BStr ''Neuroinflammation''), (''supporting_pmids'', BDict [])]]) []
           = [\<lparr>kt_subject = ''NLRP3'', kt_relation = ''INVOLVED_IN'', kt_object = ''Neuroinflammation'',
                kt_supporting_pmids = []\<rparr>]"
    by (simp add: raw_triple_def rec_get_def or_basic_def truthy_def kg_triple_from_def Let_def)
  have s: "spec_entities ''Tau, tau  amyloid-beta of AD'' = [''tau'', ''amyloid-beta'']"
    by (simp add: spec_entities_def spec_tokens_def keep_first_def is_space_def lower_def
        lower_char_def)
  from entity_extraction_amended[of "''Tau, tau  amyloid-beta of AD''" "[]" sample_graph sample_library]
  have 1: "extract_entities ''Tau, tau  amyloid-beta of AD'' = [''tau'', ''amyloid-beta'']"
    by (simp add: s)
  let ?q = "''NLRP3 nlrp3 inflammasome''"
  note T = entity_extraction_amended[of ?q "[]" sample_graph sample_library]
  from T have d: "dedupe_entities (route_entities ?q []) {} [] =
       map (\<lambda>i. route_entities ?q [] ! i) (first_spellings (route_entities ?q []))"
    by blast
  from T have p: "pipeline_entities ?q [] =
       (if dedupe_entities (route_entities ?q []) {} [] = []
        then extract_entities ?q
        else dedupe_entities (route_entities ?q []) {} [])"
    by blast
  from T k have g: "query_graph_stage sample_library sample_graph ?q [] =
          (case execute_cypher sample_graph (TripleQuery (pipeline_entities ?q []) 10) of
             Inl e \<Rightarrow> []
           | Inr results \<Rightarrow> triples_loop (map (raw_triple sample_library) results) [])"
    by blast
  have d': "dedupe_entities (route_entities ?q []) {} [] = [''NLRP3'', ''inflammasome'']"
    by (subst d) (simp add: r f)
  have 2: "pipeline_entities ?q [] = [''NLRP3'', ''inflammasome'']"
    unfolding p d' by simp
  have 3: "query_graph_stage sample_library sample_graph ?q []
       = [\<lparr>kt_subject = ''NLRP3'', kt_relation = ''INVOLVED_IN'', kt_object = ''Neuroinflammation'',
            kt_supporting_pmids = []\<rparr>]"
    unfolding g 2 x using t by simp
  from k 1 2 3 show ?thesis by simp
qed

end
